theory Spec2Isabelle
  imports Complex_Main "HOL-Library.Signed_Division"
begin

section \<open>The image-target tracker of mind-ar-ts\<close>

text \<open>
  A shallow embedding of the class \<open>Tracker\<close>: its constructor, \<open>_prebuild\<close>,
  \<open>_buildAdjustedModelViewTransform\<close>, the projection kernel, the three matching
  kernels with their cache, and the correspondence loop of \<open>track\<close>.

  JavaScript numbers and GLSL floats are modelled as real numbers (exact arithmetic);
  GLSL \<open>int\<close> values are integers. A tensor is the list (or list of rows) of its values;
  a kernel reads it through a sampler. The kernel cache is threaded through the calls as
  explicit state.
\<close>

subsection \<open>Data\<close>

type_synonym Vector2 = "real \<times> real"
type_synonym Vector3 = "real \<times> real \<times> real"
type_synonym matrix = "real list list"

text \<open>\<open>ITrackingFeature\<close>: one keyframe of a target; a point is the pair of its \<open>x\<close> and \<open>y\<close>.\<close>

record ITrackingFeature =
  data :: "real list"
  height :: nat
  width :: nat
  scale :: real
  points :: "(real \<times> real) list"

text \<open>
  What the class imports from modules that are not among the source files: the constants of
  \<open>utils/constant/tracker\<close> and the two functions of \<open>estimation/utils\<close>. They are
  parameters of the model. The last two fields are the value a sampler returns for a
  coordinate outside its tensor, which the platform decides and no kernel checks.
\<close>

record env =
  AR2_DEFAULT_TS :: nat
  AR2_DEFAULT_TS_GAP :: nat
  AR2_SEARCH_GAP :: nat
  AR2_SEARCH_SIZE :: nat
  AR2_SIM_THRESH :: real
  TRACKING_KEYFRAME :: nat
  buildModelViewProjectionTransform :: "matrix \<Rightarrow> matrix \<Rightarrow> matrix"
  computeScreenCoordiate :: "matrix \<Rightarrow> real \<Rightarrow> real \<Rightarrow> Vector2"
  outsideFlat :: "real list \<Rightarrow> int \<Rightarrow> real"
  outsideGrid :: "real list list \<Rightarrow> int \<Rightarrow> int \<Rightarrow> real"

datatype error = TypeError | ShapeError

definition PRECISION_ADJUST :: real where
  "PRECISION_ADJUST = 1000"

text \<open>A rank-2 tensor whose shape is read by the code: the rectified image.\<close>

record Image =
  shape :: "nat \<times> nat"
  pixels :: "real list list"

text \<open>
  The constants a cached kernel definition has in its program text. The matching kernels
  are built from \<open>featureCount\<close>, \<open>targetHeight\<close> and \<open>targetWidth\<close> (and the imported
  constants); the projection kernel from the marker's height, width and scale.
\<close>

record matching_kernels =
  featureCount :: nat
  targetHeight :: nat
  targetWidth :: nat

record projection_kernel =
  markerHeight :: nat
  markerWidth :: nat
  markerScale :: real

type_synonym kernelKey = "nat \<times> nat \<times> real"

record kernelCaches =
  computeMatchingCache :: "matching_kernels option"
  computeProjectionCache :: "(kernelKey \<rightharpoonup> projection_kernel) option"

record Tracker =
  projectionTransform :: matrix
  trackingKeyframeList :: "ITrackingFeature list"
  debugMode :: bool
  caches :: kernelCaches
  featurePointsListT :: "real list list list"
  imagePixelsListT :: "real list list"
  imagePropertiesListT :: "real list list"

record IDebugExtra =
  projectedImage :: "real list list"
  matchingPoints :: "real list list"
  goodTrack :: "nat list"
  trackedPoints :: "Vector2 list"

record track_result =
  worldCoords :: "Vector3 list"
  screenCoords :: "Vector2 list"
  debugExtra :: "IDebugExtra option"

subsection \<open>GLSL primitives\<close>

text \<open>\<open>int(v)\<close> of a float drops the fractional part.\<close>

definition toInt :: "real \<Rightarrow> int" where
  "toInt v = (if 0 \<le> v then \<lfloor>v\<rfloor> else \<lceil>v\<rceil>)"

text \<open>\<open>imod(x, y)\<close> of the shader prelude is \<open>x - y * (x / y)\<close>, with integer division.\<close>

definition imod :: "int \<Rightarrow> int \<Rightarrow> int" where
  "imod a b = a - b * (a sdiv b)"

definition getFlat :: "env \<Rightarrow> real list \<Rightarrow> int \<Rightarrow> real" where
  "getFlat e t i =
     (if 0 \<le> i \<and> i < int (length t) then t ! nat i else outsideFlat e t i)"

definition getGrid :: "env \<Rightarrow> real list list \<Rightarrow> int \<Rightarrow> int \<Rightarrow> real" where
  "getGrid e t r c =
     (if 0 \<le> r \<and> r < int (length t) \<and> 0 \<le> c \<and> c < int (length (t ! nat r))
      then t ! nat r ! nat c else outsideGrid e t r c)"

subsection \<open>Construction\<close>

text \<open>
  \<open>tf.tensor(values, shape)\<close> throws when the number of values is not the size of the
  shape; of the three tensors of \<open>_prebuild\<close> only the pixel buffer can fail that way.
\<close>

definition prebuild ::
  "ITrackingFeature \<Rightarrow> nat \<Rightarrow> error + (real list list \<times> real list \<times> real list)" where
  "prebuild trackingFrame maxCount =
     (let p = map (\<lambda>k. if k < length (points trackingFrame)
                         then [fst (points trackingFrame ! k) / scale trackingFrame,
                               snd (points trackingFrame ! k) / scale trackingFrame]
                         else [-1, -1]) [0..<maxCount]
      in if length (data trackingFrame) \<noteq> width trackingFrame * height trackingFrame
         then Inl ShapeError
         else Inr (p, data trackingFrame,
                   [real (width trackingFrame), real (height trackingFrame),
                    scale trackingFrame]))"

definition maxCountOf :: "ITrackingFeature list \<Rightarrow> nat" where
  "maxCountOf kfs = fold (\<lambda>kf maxCount. max maxCount (length (points kf))) kfs 0"

fun prebuildAll ::
  "ITrackingFeature list \<Rightarrow> nat \<Rightarrow>
   error + (real list list \<times> real list \<times> real list) list" where
  "prebuildAll [] maxCount = Inr []"
| "prebuildAll (kf # kfs) maxCount =
     (case prebuild kf maxCount of
        Inl err \<Rightarrow> Inl err
      | Inr b \<Rightarrow> (case prebuildAll kfs maxCount of
                    Inl err \<Rightarrow> Inl err
                  | Inr bs \<Rightarrow> Inr (b # bs)))"

text \<open>
  The constructor. An entry of \<open>trackingDataList\<close> with no element at index
  \<open>TRACKING_KEYFRAME\<close> puts \<open>undefined\<close> in the keyframe list, and reading its
  \<open>points\<close> in the next loop throws a TypeError. The arguments \<open>_markerDimensions\<close>,
  \<open>_inputWidth\<close> and \<open>_inputHeight\<close> are not read.
\<close>

definition Tracker_new ::
  "env \<Rightarrow> real list list \<Rightarrow> ITrackingFeature list list \<Rightarrow> matrix \<Rightarrow> real \<Rightarrow> real \<Rightarrow> bool
   \<Rightarrow> error + Tracker" where
  "Tracker_new e markerDimensions trackingDataList projTransform inputWidth inputHeight dbg =
     (if list_ex (\<lambda>d. length d \<le> TRACKING_KEYFRAME e) trackingDataList then Inl TypeError
      else
        let kfs = map (\<lambda>d. d ! TRACKING_KEYFRAME e) trackingDataList;
            maxCount = maxCountOf kfs
        in case prebuildAll kfs maxCount of
             Inl err \<Rightarrow> Inl err
           | Inr bs \<Rightarrow>
               Inr \<lparr> projectionTransform = projTransform,
                     trackingKeyframeList = kfs,
                     debugMode = dbg,
                     caches = \<lparr> computeMatchingCache = None,
                                computeProjectionCache = None \<rparr>,
                     featurePointsListT = map fst bs,
                     imagePixelsListT = map (fst \<circ> snd) bs,
                     imagePropertiesListT = map (snd \<circ> snd) bs \<rparr>)"

subsection \<open>The adjusted transform and the projection kernel\<close>

text \<open>\<open>tf.tensor(adjusted, [3, 4])\<close> throws unless the matrix has three rows of four.\<close>

definition buildAdjustedModelViewTransform :: "matrix \<Rightarrow> error + matrix" where
  "buildAdjustedModelViewTransform modelViewProjectionTransform =
     (let adjusted = map (map (\<lambda>v. v / PRECISION_ADJUST)) modelViewProjectionTransform
      in if length adjusted = 3 \<and> list_all (\<lambda>row. length row = 4) adjusted
         then Inr adjusted else Inl ShapeError)"

text \<open>The entry \<open>mij\<close> as the projection kernel uses it: \<open>getM(i, j) * 1000.\<close>\<close>

definition kernelM :: "env \<Rightarrow> matrix \<Rightarrow> int \<Rightarrow> int \<Rightarrow> real" where
  "kernelM e M i j = getGrid e M i j * PRECISION_ADJUST"

text \<open>
  The source position the projection reads for the output pixel \<open>(row, col)\<close>, from the
  nine entries \<open>m\<close> the kernel uses, and the kernel's \<open>main\<close>.
\<close>

definition projectionSource ::
  "(int \<Rightarrow> int \<Rightarrow> real) \<Rightarrow> real \<Rightarrow> int \<Rightarrow> int \<Rightarrow> int \<times> int" where
  "projectionSource m mScale row col =
     (let y = real_of_int row / mScale;
          x = real_of_int col / mScale;
          uz = (x * m 2 0) + (y * m 2 1) + m 2 3;
          oneOverUz = 1 / uz;
          ux = (x * m 0 0) + (y * m 0 1) + m 0 3;
          uy = (x * m 1 0) + (y * m 1 1) + m 1 3;
          ux' = real_of_int \<lfloor>ux * oneOverUz + 0.5\<rfloor>;
          uy' = real_of_int \<lfloor>uy * oneOverUz + 0.5\<rfloor>
      in (toInt uy', toInt ux'))"

definition projectionMain ::
  "env \<Rightarrow> projection_kernel \<Rightarrow> matrix \<Rightarrow> real list list \<Rightarrow> int \<Rightarrow> int \<Rightarrow> real" where
  "projectionMain e k M pixel row col =
     (case projectionSource (kernelM e M) (markerScale k) row col of
        (uy, ux) \<Rightarrow> getGrid e pixel uy ux)"

definition runProjection ::
  "env \<Rightarrow> projection_kernel \<Rightarrow> matrix \<Rightarrow> real list list \<Rightarrow> Image" where
  "runProjection e k M pixel =
     \<lparr> shape = (markerHeight k, markerWidth k),
       pixels = map (\<lambda>row. map (\<lambda>col. projectionMain e k M pixel (int row) (int col))
                               [0..<markerWidth k]) [0..<markerHeight k] \<rparr>"

definition computeProjection ::
  "env \<Rightarrow> kernelCaches \<Rightarrow> ITrackingFeature \<Rightarrow> matrix \<Rightarrow> real list list
   \<Rightarrow> kernelCaches \<times> Image" where
  "computeProjection e kc frame M inputImage =
     (let key = (width frame, height frame, scale frame);
          table = (case computeProjectionCache kc of None \<Rightarrow> Map.empty | Some m \<Rightarrow> m);
          program = (case table key of
                       None \<Rightarrow> \<lparr> markerHeight = height frame,
                                  markerWidth = width frame,
                                  markerScale = scale frame \<rparr>
                     | Some k \<Rightarrow> k)
      in (kc\<lparr> computeProjectionCache := Some (table(key \<mapsto> program)) \<rparr>,
          runProjection e program M inputImage))"

subsection \<open>The matching kernels\<close>

definition templateOneSize :: "env \<Rightarrow> nat" where
  "templateOneSize e = AR2_DEFAULT_TS e"

definition templateSize :: "env \<Rightarrow> nat" where
  "templateSize e = templateOneSize e * 2 + 1"

definition templateGap :: "env \<Rightarrow> nat" where
  "templateGap e = AR2_DEFAULT_TS_GAP e"

definition searchOneSize :: "env \<Rightarrow> nat" where
  "searchOneSize e = AR2_SEARCH_SIZE e * templateGap e"

definition searchGap :: "env \<Rightarrow> nat" where
  "searchGap e = AR2_SEARCH_GAP e"

definition searchSize :: "env \<Rightarrow> nat" where
  "searchSize e = searchOneSize e * 2 + 1"

definition searchOffsetX :: "env \<Rightarrow> int \<Rightarrow> int" where
  "searchOffsetX e searchOffsetIndex =
     imod searchOffsetIndex (int (searchSize e)) * int (searchGap e)"

definition searchOffsetY :: "env \<Rightarrow> int \<Rightarrow> int" where
  "searchOffsetY e searchOffsetIndex =
     searchOffsetIndex sdiv int (searchSize e) * int (searchGap e)"

text \<open>\<open>sCenterX\<close> (axis 0) and \<open>sCenterY\<close> (axis 1): the feature's scaled location.\<close>

definition sCenter :: "env \<Rightarrow> real list list \<Rightarrow> real list \<Rightarrow> int \<Rightarrow> int \<Rightarrow> int" where
  "sCenter e features markerProperties featureIndex axis =
     toInt (getGrid e features featureIndex axis * getFlat e markerProperties 2)"

text \<open>\<open>sx\<close> and \<open>sy\<close>: the candidate's location in the rectified image.\<close>

definition candidateX :: "env \<Rightarrow> real list list \<Rightarrow> real list \<Rightarrow> int \<Rightarrow> int \<Rightarrow> int" where
  "candidateX e features markerProperties featureIndex searchOffsetIndex =
     sCenter e features markerProperties featureIndex 0
       + searchOffsetX e searchOffsetIndex - int (searchOneSize e)"

definition candidateY :: "env \<Rightarrow> real list list \<Rightarrow> real list \<Rightarrow> int \<Rightarrow> int \<Rightarrow> int" where
  "candidateY e features markerProperties featureIndex searchOffsetIndex =
     sCenter e features markerProperties featureIndex 1
       + searchOffsetY e searchOffsetIndex - int (searchOneSize e)"

text \<open>The guard of the first branch, on the width and height in the kernel's text.\<close>

definition outsideInterior :: "env \<Rightarrow> matching_kernels \<Rightarrow> int \<Rightarrow> int \<Rightarrow> bool" where
  "outsideInterior e k sx sy =
     (sx < int (templateOneSize e)
      \<or> sx \<ge> int (targetWidth k) - int (templateOneSize e)
      \<or> sy < int (templateOneSize e)
      \<or> sy \<ge> int (targetHeight k) - int (templateOneSize e))"

text \<open>The two pixels read at a template offset, and an accumulator of the double loop.\<close>

definition markerPixelAt ::
  "env \<Rightarrow> real list \<Rightarrow> real list \<Rightarrow> int \<Rightarrow> int \<Rightarrow> int \<Rightarrow> int \<Rightarrow> real" where
  "markerPixelAt e markerPixels markerProperties cx cy templateOffsetX templateOffsetY =
     (let mWidth = toInt (getFlat e markerProperties 0);
          fx2 = cx + templateOffsetX - int (templateOneSize e);
          fy2 = cy + templateOffsetY - int (templateOneSize e);
          markerPixelIndex = fy2 * mWidth + fx2
      in getFlat e markerPixels markerPixelIndex)"

definition targetPixelAt ::
  "env \<Rightarrow> real list list \<Rightarrow> int \<Rightarrow> int \<Rightarrow> int \<Rightarrow> int \<Rightarrow> real" where
  "targetPixelAt e targetPixels sx sy templateOffsetX templateOffsetY =
     (let sx2 = sx + templateOffsetX - int (templateOneSize e);
          sy2 = sy + templateOffsetY - int (templateOneSize e)
      in getGrid e targetPixels sy2 sx2)"

definition windowSum :: "env \<Rightarrow> (int \<Rightarrow> int \<Rightarrow> real) \<Rightarrow> real" where
  "windowSum e g =
     (\<Sum>templateOffsetY\<leftarrow>[0..<templateSize e].
        \<Sum>templateOffsetX\<leftarrow>[0..<templateSize e].
          g (int templateOffsetX) (int templateOffsetY))"

definition sumPoint :: "env \<Rightarrow> (int \<Rightarrow> int \<Rightarrow> real) \<Rightarrow> real" where
  "sumPoint e targetPixel = windowSum e targetPixel"

definition sumPointSquare :: "env \<Rightarrow> (int \<Rightarrow> int \<Rightarrow> real) \<Rightarrow> real" where
  "sumPointSquare e targetPixel = windowSum e (\<lambda>x y. targetPixel x y * targetPixel x y)"

definition sumTemplate :: "env \<Rightarrow> (int \<Rightarrow> int \<Rightarrow> real) \<Rightarrow> real" where
  "sumTemplate e markerPixel = windowSum e markerPixel"

definition sumTemplateSquare :: "env \<Rightarrow> (int \<Rightarrow> int \<Rightarrow> real) \<Rightarrow> real" where
  "sumTemplateSquare e markerPixel = windowSum e (\<lambda>x y. markerPixel x y * markerPixel x y)"

definition sumPointTemplate ::
  "env \<Rightarrow> (int \<Rightarrow> int \<Rightarrow> real) \<Rightarrow> (int \<Rightarrow> int \<Rightarrow> real) \<Rightarrow> real" where
  "sumPointTemplate e targetPixel markerPixel =
     windowSum e (\<lambda>x y. targetPixel x y * markerPixel x y)"

definition count :: "env \<Rightarrow> real" where
  "count e = real (templateSize e * templateSize e)"

definition pointVariance :: "env \<Rightarrow> (int \<Rightarrow> int \<Rightarrow> real) \<Rightarrow> real" where
  "pointVariance e targetPixel =
     sqrt (sumPointSquare e targetPixel
           - sumPoint e targetPixel / count e * sumPoint e targetPixel)"

definition templateVariance :: "env \<Rightarrow> (int \<Rightarrow> int \<Rightarrow> real) \<Rightarrow> real" where
  "templateVariance e markerPixel =
     sqrt (sumTemplateSquare e markerPixel
           - sumTemplate e markerPixel / count e * sumTemplate e markerPixel)"

text \<open>The value of the last branch: the normalized cross-correlation.\<close>

definition ncc :: "env \<Rightarrow> (int \<Rightarrow> int \<Rightarrow> real) \<Rightarrow> (int \<Rightarrow> int \<Rightarrow> real) \<Rightarrow> real" where
  "ncc e targetPixel markerPixel =
     (sumPointTemplate e targetPixel markerPixel
        - sumPoint e targetPixel / count e * sumTemplate e markerPixel)
       / pointVariance e targetPixel / templateVariance e markerPixel"

definition epsilon :: real where
  "epsilon = 0.0000001"

definition kernel1 ::
  "env \<Rightarrow> matching_kernels \<Rightarrow> real list list \<Rightarrow> real list \<Rightarrow> real list \<Rightarrow> real list list
   \<Rightarrow> int \<Rightarrow> int \<Rightarrow> real" where
  "kernel1 e k features markerPixels markerProperties targetPixels
           featureIndex searchOffsetIndex =
     (let cx = sCenter e features markerProperties featureIndex 0;
          cy = sCenter e features markerProperties featureIndex 1;
          sx = candidateX e features markerProperties featureIndex searchOffsetIndex;
          sy = candidateY e features markerProperties featureIndex searchOffsetIndex;
          targetPixel = targetPixelAt e targetPixels sx sy;
          markerPixel = markerPixelAt e markerPixels markerProperties cx cy
      in if outsideInterior e k sx sy then -2
         else if pointVariance e targetPixel < epsilon then -3
         else if templateVariance e markerPixel < epsilon then -4
         else ncc e targetPixel markerPixel)"

text \<open>
  Running a kernel fills its output shape. The first kernel's shape is
  \<open>[featureCount, searchSize * searchSize]\<close>.
\<close>

definition allSimsOf ::
  "env \<Rightarrow> matching_kernels \<Rightarrow> real list list \<Rightarrow> real list \<Rightarrow> real list \<Rightarrow> real list list
   \<Rightarrow> real list list" where
  "allSimsOf e k features markerPixels markerProperties targetPixels =
     map (\<lambda>featureIndex.
            map (\<lambda>searchOffsetIndex.
                   kernel1 e k features markerPixels markerProperties targetPixels
                           (int featureIndex) (int searchOffsetIndex))
                [0..<searchSize e * searchSize e])
         [0..<featureCount k]"

text \<open>
  \<open>argMax(1)\<close> is TensorFlow.js's: along each row, the index of the largest value. Its
  backends scan the row in index order and replace the best so far only by a strictly
  greater candidate.
\<close>

fun argMaxFrom :: "nat \<Rightarrow> real \<Rightarrow> nat \<Rightarrow> real list \<Rightarrow> nat" where
  "argMaxFrom bestIndex bestValue i [] = bestIndex"
| "argMaxFrom bestIndex bestValue i (candidate # rest) =
     (if candidate > bestValue then argMaxFrom i candidate (Suc i) rest
      else argMaxFrom bestIndex bestValue (Suc i) rest)"

definition argMax :: "real list \<Rightarrow> nat" where
  "argMax row = (case row of [] \<Rightarrow> 0 | v # rest \<Rightarrow> argMaxFrom 0 v 1 rest)"

text \<open>
  The second kernel, of shape \<open>[featureCount, 2]\<close>: column 0 is the refined \<open>x\<close>,
  column 1 the refined \<open>y\<close>. The shape has no other column, so the source's second
  test, \<open>coords[1] == 1\<close>, holds whenever the first fails. The source's
  \<open>searchLocationIndex\<close> is computed and not used.
\<close>

definition kernel2 ::
  "env \<Rightarrow> real list list \<Rightarrow> real list \<Rightarrow> real list \<Rightarrow> int \<Rightarrow> int \<Rightarrow> real" where
  "kernel2 e featurePoints markerProperties maxIndex featureIndex column =
     (let mScale = getFlat e markerProperties 2;
          maxIndexI = toInt (getFlat e maxIndex featureIndex);
          searchOffsetIndex = imod maxIndexI (int (searchSize e * searchSize e))
      in if column = 0
         then getGrid e featurePoints featureIndex 0
              + real_of_int (searchOffsetX e searchOffsetIndex - int (searchOneSize e)) / mScale
         else getGrid e featurePoints featureIndex 1
              + real_of_int (searchOffsetY e searchOffsetIndex - int (searchOneSize e)) / mScale)"

definition kernel3 :: "env \<Rightarrow> real list list \<Rightarrow> real list \<Rightarrow> int \<Rightarrow> real" where
  "kernel3 e sims maxIndex featureIndex =
     getGrid e sims featureIndex (toInt (getFlat e maxIndex featureIndex))"

text \<open>
  \<open>_computeMatching\<close>: the three kernel definitions are built on the first call, from
  the shapes of that call's tensors, and stored under the single cache entry; every later
  call runs the stored ones.
\<close>

definition matchingKernelsFor ::
  "matching_kernels option \<Rightarrow> real list list \<Rightarrow> Image \<Rightarrow> matching_kernels" where
  "matchingKernelsFor cache featurePointsT projectedImageT =
     (case cache of
        None \<Rightarrow> \<lparr> featureCount = length featurePointsT,
                   targetHeight = fst (shape projectedImageT),
                   targetWidth = snd (shape projectedImageT) \<rparr>
      | Some k \<Rightarrow> k)"

definition computeMatching ::
  "env \<Rightarrow> matching_kernels option \<Rightarrow> real list list \<Rightarrow> real list \<Rightarrow> real list \<Rightarrow> Image
   \<Rightarrow> matching_kernels option \<times> real list list \<times> real list" where
  "computeMatching e cache featurePointsT imagePixelsT imagePropertiesT projectedImageT =
     (let k = matchingKernelsFor cache featurePointsT projectedImageT;
          allSims = allSimsOf e k featurePointsT imagePixelsT imagePropertiesT
                              (pixels projectedImageT);
          maxIndex = map (\<lambda>row. real (argMax row)) allSims;
          matchingPointsT =
            map (\<lambda>featureIndex.
                   map (\<lambda>column. kernel2 e featurePointsT imagePropertiesT maxIndex
                                        (int featureIndex) (int column)) [0..<2])
                [0..<featureCount k];
          simT = map (\<lambda>featureIndex. kernel3 e allSims maxIndex (int featureIndex))
                     [0..<featureCount k]
      in (Some k, matchingPointsT, simT))"

subsection \<open>Tracking\<close>

text \<open>The loop of \<open>track\<close> over the feature slots, with its three growing arrays.\<close>

fun correspondences ::
  "env \<Rightarrow> matrix \<Rightarrow> real list list \<Rightarrow> real list \<Rightarrow> ITrackingFeature \<Rightarrow> nat list
   \<Rightarrow> Vector3 list \<times> Vector2 list \<times> nat list \<Rightarrow> Vector3 list \<times> Vector2 list \<times> nat list" where
  "correspondences e mvp mps sim trackingFrame [] acc = acc"
| "correspondences e mvp mps sim trackingFrame (i # rest) (world, screen, good) =
     correspondences e mvp mps sim trackingFrame rest
       (if sim ! i > AR2_SIM_THRESH e \<and> i < length (points trackingFrame)
        then (world @ [(fst (points trackingFrame ! i) / scale trackingFrame,
                        snd (points trackingFrame ! i) / scale trackingFrame, 0)],
              screen @ [computeScreenCoordiate e mvp (mps ! i ! 0) (mps ! i ! 1)],
              good @ [i])
        else (world, screen, good))"

text \<open>
  The stages of \<open>track\<close> before the loop: the composed transform, the rectified image,
  the refined locations and the best similarities, with the caches as they are left.
  A target index past the keyframe list makes \<open>_computeProjection\<close> throw.
\<close>

definition trackStages ::
  "env \<Rightarrow> Tracker \<Rightarrow> real list list \<Rightarrow> matrix \<Rightarrow> nat
   \<Rightarrow> error + (kernelCaches \<times> matrix \<times> Image \<times> real list list \<times> real list)" where
  "trackStages e t inputImageT lastModelViewTransform targetIndex =
     (let modelViewProjectionTransform =
            buildModelViewProjectionTransform e (projectionTransform t) lastModelViewTransform
      in case buildAdjustedModelViewTransform modelViewProjectionTransform of
           Inl err \<Rightarrow> Inl err
         | Inr modelViewProjectionTransformT \<Rightarrow>
             if length (trackingKeyframeList t) \<le> targetIndex then Inl TypeError
             else
               let featurePointsT = featurePointsListT t ! targetIndex;
                   imagePixelsT = imagePixelsListT t ! targetIndex;
                   imagePropertiesT = imagePropertiesListT t ! targetIndex;
                   (kc, projectedImageT) =
                     computeProjection e (caches t) (trackingKeyframeList t ! targetIndex)
                       modelViewProjectionTransformT inputImageT;
                   (km, mps, sim) =
                     computeMatching e (computeMatchingCache kc) featurePointsT imagePixelsT
                       imagePropertiesT projectedImageT
               in Inr (kc\<lparr> computeMatchingCache := km \<rparr>, modelViewProjectionTransform,
                       projectedImageT, mps, sim))"

definition track ::
  "env \<Rightarrow> Tracker \<Rightarrow> real list list \<Rightarrow> matrix \<Rightarrow> nat \<Rightarrow> error + (Tracker \<times> track_result)" where
  "track e t inputImageT lastModelViewTransform targetIndex =
     (case trackStages e t inputImageT lastModelViewTransform targetIndex of
        Inl err \<Rightarrow> Inl err
      | Inr (kc, mvp, projectedImageT, mps, sim) \<Rightarrow>
          (case correspondences e mvp mps sim (trackingKeyframeList t ! targetIndex)
                  [0..<length mps] ([], [], []) of
             (world, screen, good) \<Rightarrow>
               Inr (t\<lparr> caches := kc \<rparr>,
                    \<lparr> worldCoords = world,
                      screenCoords = screen,
                      debugExtra =
                        (if debugMode t
                         then Some \<lparr> projectedImage = pixels projectedImageT,
                                     matchingPoints = mps,
                                     goodTrack = good,
                                     trackedPoints = screen \<rparr>
                         else None) \<rparr>)))"


subsection \<open>Trackers the constructor builds\<close>

text \<open>
  What holds of a tracker after construction and after every call of \<open>track\<close>: the three
  tensor lists are the ones \<open>_prebuild\<close> made from the keyframes with the shared
  \<open>maxCount\<close>, and stored matching kernels were built for \<open>maxCount\<close> feature slots.
\<close>

definition consistent :: "Tracker \<Rightarrow> bool" where
  "consistent t =
     (prebuildAll (trackingKeyframeList t) (maxCountOf (trackingKeyframeList t))
        = Inr (zip (featurePointsListT t) (zip (imagePixelsListT t) (imagePropertiesListT t)))
      \<and> length (featurePointsListT t) = length (trackingKeyframeList t)
      \<and> length (imagePixelsListT t) = length (trackingKeyframeList t)
      \<and> length (imagePropertiesListT t) = length (trackingKeyframeList t)
      \<and> (case computeMatchingCache (caches t) of
            None \<Rightarrow> True
          | Some k \<Rightarrow> featureCount k = maxCountOf (trackingKeyframeList t)))"

subsection \<open>Instances\<close>

text \<open>
  An environment with the constants at MindAR's usual values, a target of one pixel with
  one feature point, and the tracker the constructor builds for it.
\<close>

definition exampleEnv :: env where
  "exampleEnv =
     \<lparr> AR2_DEFAULT_TS = 6, AR2_DEFAULT_TS_GAP = 1, AR2_SEARCH_GAP = 1, AR2_SEARCH_SIZE = 10,
       AR2_SIM_THRESH = 0.8, TRACKING_KEYFRAME = 1,
       buildModelViewProjectionTransform =
         (\<lambda>P M. [[1, 0, 0, 0], [0, 1, 0, 0], [0, 0, 0, 1]]),
       computeScreenCoordiate = (\<lambda>M x y. (x, y)),
       outsideFlat = (\<lambda>t i. 0),
       outsideGrid = (\<lambda>t r c. 0) \<rparr>"

definition exampleFrame :: ITrackingFeature where
  "exampleFrame = \<lparr> data = [0], height = 1, width = 1, scale = 1, points = [(0, 0)] \<rparr>"


text \<open>
  A second instance: a 21 by 21 target whose pixel is its column index, with one feature
  point in the middle, a flat 4 by 4 target with no feature point, and the tracker the
  constructor builds for the two, in this order.
\<close>

definition ramp :: "nat \<Rightarrow> nat \<Rightarrow> real list list" where
  "ramp h w = map (\<lambda>r. map (\<lambda>c. real c) [0..<w]) [0..<h]"

definition rampFrame :: ITrackingFeature where
  "rampFrame = \<lparr> data = map (\<lambda>i. real (i mod 21)) [0..<441], height = 21, width = 21,
                 scale = 1, points = [(10, 10)] \<rparr>"

definition flatFrame :: ITrackingFeature where
  "flatFrame = \<lparr> data = replicate 16 0, height = 4, width = 4, scale = 1, points = [] \<rparr>"

definition twoTargets :: Tracker where
  "twoTargets =
     \<lparr> projectionTransform = [],
       trackingKeyframeList = [flatFrame, rampFrame],
       debugMode = False,
       caches = \<lparr> computeMatchingCache = None, computeProjectionCache = None \<rparr>,
       featurePointsListT = [[[-1, -1]], [[10, 10]]],
       imagePixelsListT = [data flatFrame, data rampFrame],
       imagePropertiesListT = [[4, 4, 1], [21, 21, 1]] \<rparr>"

section \<open>Properties\<close>

subsection \<open>Primitives\<close>

lemma toInt_of_int: "toInt (real_of_int z) = z"
  by (simp add: toInt_def)

lemma toInt_of_nat: "toInt (real n) = int n"
  by (simp add: toInt_def)

subsection \<open>Construction and the invariant\<close>

lemma maxCountOf_fold:
  "m \<le> fold (\<lambda>kf maxCount. max maxCount (length (points kf))) kfs m \<and>
   (\<forall>kf \<in> set kfs.
      length (points kf) \<le> fold (\<lambda>kf maxCount. max maxCount (length (points kf))) kfs m)"
proof (induction kfs arbitrary: m)
  case Nil
  then show ?case by simp
next
  case (Cons a kfs)
  have "max m (length (points a))
        \<le> fold (\<lambda>kf maxCount. max maxCount (length (points kf))) kfs (max m (length (points a)))"
    using Cons.IH by blast
  then show ?case using Cons.IH[of "max m (length (points a))"] by auto
qed

lemma maxCountOf_ge: "kf \<in> set kfs \<Longrightarrow> length (points kf) \<le> maxCountOf kfs"
  using maxCountOf_fold[of 0 kfs] by (simp add: maxCountOf_def)

lemma prebuild_length: "prebuild kf n = Inr (p, d, pr) \<Longrightarrow> length p = n"
  by (auto simp: prebuild_def Let_def split: if_splits)

lemma prebuildAll_nth:
  "prebuildAll kfs n = Inr bs \<Longrightarrow>
   length bs = length kfs \<and> (\<forall>i < length kfs. prebuild (kfs ! i) n = Inr (bs ! i))"
proof (induction kfs arbitrary: bs)
  case Nil
  then show ?case by simp
next
  case (Cons a kfs)
  then obtain b bs' where b: "prebuild a n = Inr b" and bs': "prebuildAll kfs n = Inr bs'"
    and bs: "bs = b # bs'"
    by (auto split: sum.splits)
  from Cons.IH[OF bs'] b bs show ?case
    by (auto simp: nth_Cons split: nat.splits)
qed

lemma zip_map_triples: "zip (map fst bs) (zip (map (fst \<circ> snd) bs) (map (snd \<circ> snd) bs)) = bs"
  by (induction bs) auto

lemma Tracker_new_consistent:
  assumes "Tracker_new e md tdl P iw ih dbg = Inr t"
  shows "consistent t"
proof -
  let ?kfs = "map (\<lambda>d. d ! TRACKING_KEYFRAME e) tdl"
  from assms obtain bs where bs: "prebuildAll ?kfs (maxCountOf ?kfs) = Inr bs"
    and t: "t = \<lparr> projectionTransform = P, trackingKeyframeList = ?kfs, debugMode = dbg,
                  caches = \<lparr> computeMatchingCache = None, computeProjectionCache = None \<rparr>,
                  featurePointsListT = map fst bs,
                  imagePixelsListT = map (fst \<circ> snd) bs,
                  imagePropertiesListT = map (snd \<circ> snd) bs \<rparr>"
    by (auto simp: Tracker_new_def Let_def split: if_splits sum.splits)
  have "length bs = length ?kfs" using prebuildAll_nth[OF bs] by simp
  then show ?thesis
    using bs by (simp add: consistent_def t zip_map_triples)
qed

lemma consistent_slot:
  assumes "consistent t" and "i < length (trackingKeyframeList t)"
  shows "length (featurePointsListT t ! i) = maxCountOf (trackingKeyframeList t)"
    and "length (points (trackingKeyframeList t ! i)) \<le> maxCountOf (trackingKeyframeList t)"
proof -
  let ?kfs = "trackingKeyframeList t"
  let ?bs = "zip (featurePointsListT t) (zip (imagePixelsListT t) (imagePropertiesListT t))"
  from assms(1) have bs: "prebuildAll ?kfs (maxCountOf ?kfs) = Inr ?bs"
    and len: "length (featurePointsListT t) = length ?kfs"
             "length (imagePixelsListT t) = length ?kfs"
             "length (imagePropertiesListT t) = length ?kfs"
    by (simp_all add: consistent_def)
  from prebuildAll_nth[OF bs] assms(2)
  have "prebuild (?kfs ! i) (maxCountOf ?kfs) = Inr (?bs ! i)" by blast
  with len assms(2) show "length (featurePointsListT t ! i) = maxCountOf ?kfs"
    by (auto dest: prebuild_length)
  show "length (points (?kfs ! i)) \<le> maxCountOf ?kfs"
    using assms(2) by (intro maxCountOf_ge) simp
qed

lemma consistent_featureCount:
  assumes "consistent t" and "i < length (trackingKeyframeList t)"
  shows "featureCount (matchingKernelsFor (computeMatchingCache (caches t))
                         (featurePointsListT t ! i) img)
         = maxCountOf (trackingKeyframeList t)"
proof (cases "computeMatchingCache (caches t)")
  case None
  then show ?thesis
    using consistent_slot(1)[OF assms] by (simp add: matchingKernelsFor_def)
next
  case (Some k)
  then show ?thesis
    using assms(1) by (simp add: matchingKernelsFor_def consistent_def)
qed

subsection \<open>The stages and the loop of track\<close>

lemma correspondences_filter:
  "correspondences e mvp mps sim fr is (world, screen, good) =
     (world @ map (\<lambda>i. (fst (points fr ! i) / scale fr, snd (points fr ! i) / scale fr, 0))
                  (filter (\<lambda>i. sim ! i > AR2_SIM_THRESH e \<and> i < length (points fr)) is),
      screen @ map (\<lambda>i. computeScreenCoordiate e mvp (mps ! i ! 0) (mps ! i ! 1))
                   (filter (\<lambda>i. sim ! i > AR2_SIM_THRESH e \<and> i < length (points fr)) is),
      good @ filter (\<lambda>i. sim ! i > AR2_SIM_THRESH e \<and> i < length (points fr)) is)"
  by (induction "is" arbitrary: world screen good) auto

lemma filter_upt_below:
  assumes "m \<le> n"
  shows "filter (\<lambda>i. P i \<and> i < m) [0..<n] = filter P [0..<m]"
proof -
  have split: "[0..<n] = [0..<m] @ [m..<n]"
    using assms by (metis le_add_diff_inverse upt_add_eq_append zero_le)
  have low: "filter (\<lambda>i. P i \<and> i < m) [0..<m] = filter P [0..<m]"
    by (rule filter_cong) auto
  have high: "filter (\<lambda>i. P i \<and> i < m) [m..<n] = []"
    by (auto simp: filter_empty_conv)
  show ?thesis by (simp only: split filter_append low high append_Nil2)
qed

lemma computeMatching_lengths:
  assumes "computeMatching e cache fp px props proj = (km, mps, sim)"
  shows "km = Some (matchingKernelsFor cache fp proj)"
    and "length mps = featureCount (matchingKernelsFor cache fp proj)"
    and "length sim = featureCount (matchingKernelsFor cache fp proj)"
  using assms by (auto simp: computeMatching_def Let_def)

lemma buildAdjusted_Inr:
  "length M = 3 \<Longrightarrow> list_all (\<lambda>row. length row = 4) M \<Longrightarrow>
   buildAdjustedModelViewTransform M = Inr (map (map (\<lambda>v. v / PRECISION_ADJUST)) M)"
  by (simp add: buildAdjustedModelViewTransform_def list_all_iff)

text \<open>The stages succeed on a consistent tracker, a valid index and a 3 by 4 transform.\<close>

lemma trackStages_Inr:
  assumes c: "consistent t" and i: "targetIndex < length (trackingKeyframeList t)"
    and M: "length (buildModelViewProjectionTransform e (projectionTransform t) lastMV) = 3"
           "list_all (\<lambda>row. length row = 4)
              (buildModelViewProjectionTransform e (projectionTransform t) lastMV)"
  shows "\<exists>kc img mps sim.
           trackStages e t inputImageT lastMV targetIndex
             = Inr (kc, buildModelViewProjectionTransform e (projectionTransform t) lastMV,
                    img, mps, sim)
           \<and> length mps = maxCountOf (trackingKeyframeList t)
           \<and> length sim = maxCountOf (trackingKeyframeList t)
           \<and> (\<exists>k. computeMatchingCache kc = Some k
                    \<and> featureCount k = maxCountOf (trackingKeyframeList t))
           \<and> img = snd (computeProjection e (caches t) (trackingKeyframeList t ! targetIndex)
                          (map (map (\<lambda>v. v / PRECISION_ADJUST))
                             (buildModelViewProjectionTransform e (projectionTransform t) lastMV))
                          inputImageT)
           \<and> (\<exists>km. computeMatching e (computeMatchingCache (caches t))
                       (featurePointsListT t ! targetIndex) (imagePixelsListT t ! targetIndex)
                       (imagePropertiesListT t ! targetIndex) img = (km, mps, sim))"
proof -
  let ?mvp = "buildModelViewProjectionTransform e (projectionTransform t) lastMV"
  let ?T = "map (map (\<lambda>v. v / PRECISION_ADJUST)) ?mvp"
  obtain kc1 img where P: "computeProjection e (caches t) (trackingKeyframeList t ! targetIndex)
                             ?T inputImageT = (kc1, img)"
    by (cases "computeProjection e (caches t) (trackingKeyframeList t ! targetIndex)
                 ?T inputImageT")
  have kc1: "computeMatchingCache kc1 = computeMatchingCache (caches t)"
    using P by (auto simp: computeProjection_def Let_def)
  obtain km mps sim where C: "computeMatching e (computeMatchingCache kc1)
        (featurePointsListT t ! targetIndex) (imagePixelsListT t ! targetIndex)
        (imagePropertiesListT t ! targetIndex) img = (km, mps, sim)"
    by (metis prod_cases3)
  have S: "trackStages e t inputImageT lastMV targetIndex
             = Inr (kc1\<lparr> computeMatchingCache := km \<rparr>, ?mvp, img, mps, sim)"
    using i P C buildAdjusted_Inr[OF M] by (simp add: trackStages_def Let_def)
  have fc: "featureCount (matchingKernelsFor (computeMatchingCache kc1)
                            (featurePointsListT t ! targetIndex) img)
            = maxCountOf (trackingKeyframeList t)"
    unfolding kc1 by (rule consistent_featureCount[OF c i])
  have img: "img = snd (computeProjection e (caches t) (trackingKeyframeList t ! targetIndex)
                          ?T inputImageT)"
    using P by simp
  from computeMatching_lengths[OF C] fc S C img show ?thesis
    unfolding kc1 by auto
qed

text \<open>The result of \<open>track\<close>, from the stages: the loop keeps the real slots above the threshold.\<close>

lemma track_of_stages:
  assumes S: "trackStages e t inputImageT lastMV targetIndex = Inr (kc, mvp, img, mps, sim)"
    and n: "length (points (trackingKeyframeList t ! targetIndex)) \<le> length mps"
  shows "track e t inputImageT lastMV targetIndex =
     Inr (t\<lparr> caches := kc \<rparr>,
          \<lparr> worldCoords =
              map (\<lambda>i. (fst (points (trackingKeyframeList t ! targetIndex) ! i)
                          / scale (trackingKeyframeList t ! targetIndex),
                        snd (points (trackingKeyframeList t ! targetIndex) ! i)
                          / scale (trackingKeyframeList t ! targetIndex), 0))
                  (filter (\<lambda>i. sim ! i > AR2_SIM_THRESH e)
                     [0..<length (points (trackingKeyframeList t ! targetIndex))]),
            screenCoords =
              map (\<lambda>i. computeScreenCoordiate e mvp (mps ! i ! 0) (mps ! i ! 1))
                  (filter (\<lambda>i. sim ! i > AR2_SIM_THRESH e)
                     [0..<length (points (trackingKeyframeList t ! targetIndex))]),
            debugExtra =
              (if debugMode t
               then Some \<lparr> projectedImage = pixels img,
                           matchingPoints = mps,
                           goodTrack =
                             filter (\<lambda>i. sim ! i > AR2_SIM_THRESH e)
                               [0..<length (points (trackingKeyframeList t ! targetIndex))],
                           trackedPoints =
                             map (\<lambda>i. computeScreenCoordiate e mvp (mps ! i ! 0) (mps ! i ! 1))
                               (filter (\<lambda>i. sim ! i > AR2_SIM_THRESH e)
                                  [0..<length (points (trackingKeyframeList t ! targetIndex))]) \<rparr>
               else None) \<rparr>)"
  using S by (simp add: track_def correspondences_filter filter_upt_below[OF n])

subsection \<open>The arg-max scan\<close>

lemma argMaxFrom_scan:
  assumes "b < i"
  shows "(argMaxFrom b v i rest = b \<and> (\<forall>q < length rest. rest ! q \<le> v))
       \<or> (i \<le> argMaxFrom b v i rest \<and> argMaxFrom b v i rest < i + length rest
          \<and> v < rest ! (argMaxFrom b v i rest - i)
          \<and> (\<forall>q < length rest. rest ! q \<le> rest ! (argMaxFrom b v i rest - i))
          \<and> (\<forall>q < argMaxFrom b v i rest - i. rest ! q < rest ! (argMaxFrom b v i rest - i)))"
  using assms
proof (induction rest arbitrary: b v i)
  case Nil
  then show ?case by simp
next
  case (Cons c rest)
  show ?case
  proof (cases "c > v")
    case True
    have eq: "argMaxFrom b v i (c # rest) = argMaxFrom i c (Suc i) rest"
      using True by simp
    from Cons.IH[of i "Suc i" c]
    consider (keep) "argMaxFrom i c (Suc i) rest = i" "\<forall>q < length rest. rest ! q \<le> c"
      | (move) "Suc i \<le> argMaxFrom i c (Suc i) rest"
          "argMaxFrom i c (Suc i) rest < Suc i + length rest"
          "c < rest ! (argMaxFrom i c (Suc i) rest - Suc i)"
          "\<forall>q < length rest. rest ! q \<le> rest ! (argMaxFrom i c (Suc i) rest - Suc i)"
          "\<forall>q < argMaxFrom i c (Suc i) rest - Suc i.
              rest ! q < rest ! (argMaxFrom i c (Suc i) rest - Suc i)"
      by auto
    then show ?thesis
    proof cases
      case keep
      then show ?thesis using True unfolding eq
        by (auto simp: nth_Cons split: nat.splits)
    next
      case move
      let ?r = "argMaxFrom i c (Suc i) rest"
      have d: "?r - i = Suc (?r - Suc i)" using move(1) by simp
      have "\<forall>q < length (c # rest). (c # rest) ! q \<le> (c # rest) ! (?r - i)"
        using move(3,4) by (auto simp: d nth_Cons split: nat.splits)
      moreover have "\<forall>q < ?r - i. (c # rest) ! q < (c # rest) ! (?r - i)"
        using move(3,5) by (auto simp: d nth_Cons split: nat.splits)
      moreover have "v < (c # rest) ! (?r - i)"
        using True move(3) by (simp add: d)
      ultimately show ?thesis unfolding eq using move(1,2) by auto
    qed
  next
    case False
    have eq: "argMaxFrom b v i (c # rest) = argMaxFrom b v (Suc i) rest"
      using False by simp
    have b: "b < Suc i" using Cons.prems by simp
    from Cons.IH[OF b, of v]
    consider (keep) "argMaxFrom b v (Suc i) rest = b" "\<forall>q < length rest. rest ! q \<le> v"
      | (move) "Suc i \<le> argMaxFrom b v (Suc i) rest"
          "argMaxFrom b v (Suc i) rest < Suc i + length rest"
          "v < rest ! (argMaxFrom b v (Suc i) rest - Suc i)"
          "\<forall>q < length rest. rest ! q \<le> rest ! (argMaxFrom b v (Suc i) rest - Suc i)"
          "\<forall>q < argMaxFrom b v (Suc i) rest - Suc i.
              rest ! q < rest ! (argMaxFrom b v (Suc i) rest - Suc i)"
      by auto
    then show ?thesis
    proof cases
      case keep
      then show ?thesis using False unfolding eq
        by (auto simp: nth_Cons split: nat.splits)
    next
      case move
      let ?r = "argMaxFrom b v (Suc i) rest"
      have d: "?r - i = Suc (?r - Suc i)" using move(1) by simp
      have "\<forall>q < length (c # rest). (c # rest) ! q \<le> (c # rest) ! (?r - i)"
        using move(3,4) False by (auto simp: d nth_Cons split: nat.splits)
      moreover have "\<forall>q < ?r - i. (c # rest) ! q < (c # rest) ! (?r - i)"
        using move(3,5) False by (auto simp: d nth_Cons split: nat.splits)
      moreover have "v < (c # rest) ! (?r - i)"
        using move(3) by (simp add: d)
      ultimately show ?thesis unfolding eq using move(1,2) by auto
    qed
  qed
qed

lemma argMax_first_maximum:
  assumes "row \<noteq> []"
  shows "argMax row < length row"
    and "\<forall>j < length row. row ! j \<le> row ! argMax row"
    and "\<forall>j < argMax row. row ! j < row ! argMax row"
proof -
  from assms obtain v rest where row: "row = v # rest" by (cases row) auto
  let ?r = "argMaxFrom 0 v 1 rest"
  have r: "argMax row = ?r" by (simp add: row argMax_def)
  from argMaxFrom_scan[of 0 1 v rest]
  consider (keep) "?r = 0" "\<forall>q < length rest. rest ! q \<le> v"
    | (move) "1 \<le> ?r" "?r < 1 + length rest" "v < rest ! (?r - 1)"
        "\<forall>q < length rest. rest ! q \<le> rest ! (?r - 1)"
        "\<forall>q < ?r - 1. rest ! q < rest ! (?r - 1)"
    by auto
  then have "argMax row < length row \<and> (\<forall>j < length row. row ! j \<le> row ! argMax row)
             \<and> (\<forall>j < argMax row. row ! j < row ! argMax row)"
  proof cases
    case keep
    then show ?thesis unfolding r by (auto simp: row nth_Cons split: nat.splits)
  next
    case move
    then obtain p where p: "?r = Suc p" by (cases ?r) auto
    show ?thesis unfolding r using move by (auto simp: row p nth_Cons split: nat.splits)
  qed
  then show "argMax row < length row"
    and "\<forall>j < length row. row ! j \<le> row ! argMax row"
    and "\<forall>j < argMax row. row ! j < row ! argMax row" by blast+
qed

subsection \<open>Integer division and the offset grid\<close>

lemma sdiv_of_nat: "int a sdiv int b = int (a div b)"
  by (simp add: signed_divide_int_def sgn_if zdiv_int)

lemma imod_of_nat: "imod (int a) (int b) = int (a mod b)"
proof -
  have "int a - int b * int (a div b) = int (a mod b)"
    by (metis minus_mult_div_eq_mod of_nat_div of_nat_mod)
  then show ?thesis by (simp add: imod_def sdiv_of_nat)
qed

lemma searchSize_pos: "0 < searchSize e"
  by (simp add: searchSize_def)

lemma searchOffsetX_of_nat: "searchOffsetX e (int j) = int ((j mod searchSize e) * searchGap e)"
  by (simp add: searchOffsetX_def imod_of_nat)

lemma searchOffsetY_of_nat: "searchOffsetY e (int j) = int ((j div searchSize e) * searchGap e)"
  by (simp add: searchOffsetY_def sdiv_of_nat)

subsection \<open>What the three kernels leave in the tensors\<close>

lemma allSimsOf_row:
  assumes "f < featureCount k"
  shows "allSimsOf e k fp px props img ! f =
           map (\<lambda>j. kernel1 e k fp px props img (int f) (int j))
               [0..<searchSize e * searchSize e]"
  using assms by (simp add: allSimsOf_def)

lemma allSimsOf_row_length:
  assumes "f < featureCount k"
  shows "length (allSimsOf e k fp px props img ! f) = searchSize e * searchSize e"
    and "allSimsOf e k fp px props img ! f \<noteq> []"
proof -
  show "length (allSimsOf e k fp px props img ! f) = searchSize e * searchSize e"
    by (simp add: allSimsOf_row[OF assms])
  then show "allSimsOf e k fp px props img ! f \<noteq> []"
    using searchSize_pos[of e] by (metis length_0_conv less_numeral_extra(3) nat_0_less_mult_iff)
qed

lemma getFlat_in: "i < length t \<Longrightarrow> getFlat e t (int i) = t ! i"
  by (simp add: getFlat_def)

lemma getGrid_in: "r < length t \<Longrightarrow> c < length (t ! r) \<Longrightarrow> getGrid e t (int r) (int c) = t ! r ! c"
  by (simp add: getGrid_def)

text \<open>The selected index of a slot, and what the second and third kernels make of it.\<close>

lemma computeMatching_selected:
  assumes C: "computeMatching e cache fp px props proj = (km, mps, sim)"
    and k: "k = matchingKernelsFor cache fp proj"
    and f: "f < featureCount k"
    and row: "row = allSimsOf e k fp px props (pixels proj) ! f"
  shows "sim ! f = row ! argMax row"
    and "mps ! f =
           [getGrid e fp (int f) 0
              + real_of_int (searchOffsetX e (int (argMax row)) - int (searchOneSize e))
                / getFlat e props 2,
            getGrid e fp (int f) 1
              + real_of_int (searchOffsetY e (int (argMax row)) - int (searchOneSize e))
                / getFlat e props 2]"
proof -
  let ?all = "allSimsOf e k fp px props (pixels proj)"
  let ?mi = "map (\<lambda>row. real (argMax row)) ?all"
  have len: "length ?all = featureCount k" by (simp add: allSimsOf_def)
  have sel: "argMax row < searchSize e * searchSize e"
    using argMax_first_maximum(1)[of row] allSimsOf_row_length[OF f] row by metis
  have mi: "toInt (getFlat e ?mi (int f)) = int (argMax row)"
    using f len row by (simp add: getFlat_in toInt_of_nat)
  have sim: "sim = map (\<lambda>featureIndex. kernel3 e ?all ?mi (int featureIndex)) [0..<featureCount k]"
    using C k by (auto simp: computeMatching_def Let_def)
  have "sim ! f = getGrid e ?all (int f) (int (argMax row))"
    using f by (simp add: sim kernel3_def mi)
  also have "\<dots> = row ! argMax row"
    using f len sel allSimsOf_row_length(1)[OF f, of e fp px props "pixels proj"] row
    by (simp add: getGrid_in)
  finally show "sim ! f = row ! argMax row" .
  have mps: "mps = map (\<lambda>featureIndex.
                   map (\<lambda>column. kernel2 e fp props ?mi (int featureIndex) (int column)) [0..<2])
                [0..<featureCount k]"
    using C k by (auto simp: computeMatching_def Let_def)
  have im: "imod (int (argMax row)) (int (searchSize e * searchSize e)) = int (argMax row)"
    using sel by (simp only: imod_of_nat mod_less)
  have two: "[0..<2] = [0, Suc 0]" by (simp add: upt_rec)
  show "mps ! f =
           [getGrid e fp (int f) 0
              + real_of_int (searchOffsetX e (int (argMax row)) - int (searchOneSize e))
                / getFlat e props 2,
            getGrid e fp (int f) 1
              + real_of_int (searchOffsetY e (int (argMax row)) - int (searchOneSize e))
                / getFlat e props 2]"
    using f by (simp add: mps two kernel2_def Let_def mi im del: of_nat_mult)
qed

subsection \<open>The correspondences of track\<close>




subsection \<open>Candidates outside the rectified image\<close>

lemma kernel1_outside:
  "outsideInterior e k (candidateX e fp props f j) (candidateY e fp props f j) \<Longrightarrow>
   kernel1 e k fp px props img f j = -2"
  by (simp add: kernel1_def Let_def)

lemma outsideInterior_narrow:
  "targetWidth k \<le> 2 * templateOneSize e \<Longrightarrow> outsideInterior e k sx sy"
  by (auto simp: outsideInterior_def)

text \<open>On an image no wider than the template every slot's best similarity is \<open>-2\<close>.\<close>

lemma computeMatching_narrow:
  assumes C: "computeMatching e cache fp px props proj = (km, mps, sim)"
    and w: "targetWidth (matchingKernelsFor cache fp proj) \<le> 2 * templateOneSize e"
    and f: "f < featureCount (matchingKernelsFor cache fp proj)"
  shows "sim ! f = -2"
proof -
  let ?k = "matchingKernelsFor cache fp proj"
  let ?row = "allSimsOf e ?k fp px props (pixels proj) ! f"
  have sel: "argMax ?row < searchSize e * searchSize e"
    using argMax_first_maximum(1)[of ?row] allSimsOf_row_length[OF f] by metis
  have "sim ! f = ?row ! argMax ?row"
    by (rule computeMatching_selected(1)[OF C refl f refl])
  also have "\<dots> = kernel1 e ?k fp px props (pixels proj) (int f) (int (argMax ?row))"
    using sel by (simp add: allSimsOf_row[OF f])
  also have "\<dots> = -2"
    by (rule kernel1_outside[OF outsideInterior_narrow[OF w]])
  finally show ?thesis .
qed

subsection \<open>The number of correspondences\<close>





subsection \<open>The constructor\<close>

lemma prebuildAll_Inr_iff:
  "(\<exists>bs. prebuildAll kfs n = Inr bs)
   \<longleftrightarrow> list_all (\<lambda>kf. length (data kf) = width kf * height kf) kfs"
proof (induction kfs)
  case Nil
  then show ?case by simp
next
  case (Cons kf kfs)
  have one: "(\<exists>b. prebuild kf n = Inr b) \<longleftrightarrow> length (data kf) = width kf * height kf"
    by (auto simp: prebuild_def Let_def)
  show ?case
  proof (cases "prebuild kf n")
    case (Inl err)
    then show ?thesis using one by auto
  next
    case (Inr b)
    then have "length (data kf) = width kf * height kf" using one by blast
    then show ?thesis using Inr Cons.IH by (auto split: sum.splits)
  qed
qed

lemma prebuildAll_error: "prebuildAll kfs n = Inl err \<Longrightarrow> err = ShapeError"
proof (induction kfs)
  case Nil
  then show ?case by simp
next
  case (Cons kf kfs)
  then show ?case
    by (auto simp: prebuild_def Let_def split: sum.splits if_splits)
qed

text \<open>
  C9, as stated, fails: the constructor returns a tracker for one target and an empty
  \<open>markerDimensions\<close> (the counts differ), and for a target whose point list is empty.
\<close>

theorem constructor_no_validation_counterexample:
  "(\<exists>t. Tracker_new exampleEnv [] [[exampleFrame, exampleFrame]] [] 640 480 False = Inr t)
   \<and> (\<exists>t. Tracker_new exampleEnv [[1, 1]]
             [[exampleFrame, exampleFrame\<lparr> points := [] \<rparr>]] [] 640 480 False = Inr t
          \<and> points (trackingKeyframeList t ! 0) = [])"
  by (simp add: Tracker_new_def exampleEnv_def exampleFrame_def maxCountOf_def prebuild_def)

text \<open>
  C9, amended. The constructor checks neither the target counts nor the point lists. It
  returns a tracker exactly when every entry of \<open>trackingDataList\<close> has a keyframe at
  index \<open>TRACKING_KEYFRAME\<close> whose pixel buffer holds \<open>width * height\<close> values,
  whatever \<open>markerDimensions\<close> and the point lists are; otherwise it throws, a TypeError
  for a missing keyframe and else the tensor's shape error.
\<close>

theorem constructor_succeeds_iff:
  "((\<exists>t. Tracker_new e markerDimensions trackingDataList P inputWidth inputHeight dbg = Inr t)
      \<longleftrightarrow> list_all (\<lambda>d. TRACKING_KEYFRAME e < length d
                           \<and> length (data (d ! TRACKING_KEYFRAME e))
                               = width (d ! TRACKING_KEYFRAME e)
                                 * height (d ! TRACKING_KEYFRAME e)) trackingDataList)
   \<and> (Tracker_new e markerDimensions trackingDataList P inputWidth inputHeight dbg
        = Inl TypeError
      \<longleftrightarrow> list_ex (\<lambda>d. length d \<le> TRACKING_KEYFRAME e) trackingDataList)
   \<and> (Tracker_new e markerDimensions trackingDataList P inputWidth inputHeight dbg
        = Inl ShapeError
      \<longleftrightarrow> list_all (\<lambda>d. TRACKING_KEYFRAME e < length d) trackingDataList
          \<and> list_ex (\<lambda>d. length (data (d ! TRACKING_KEYFRAME e))
                           \<noteq> width (d ! TRACKING_KEYFRAME e)
                             * height (d ! TRACKING_KEYFRAME e)) trackingDataList)"
proof -
  let ?kfs = "map (\<lambda>d. d ! TRACKING_KEYFRAME e) trackingDataList"
  let ?new = "Tracker_new e markerDimensions trackingDataList P inputWidth inputHeight dbg"
  show ?thesis
  proof (cases "list_ex (\<lambda>d. length d \<le> TRACKING_KEYFRAME e) trackingDataList")
    case True
    then have "?new = Inl TypeError" by (simp add: Tracker_new_def)
    moreover have "\<not> list_all (\<lambda>d. TRACKING_KEYFRAME e < length d) trackingDataList"
      using True unfolding list_ex_iff list_all_iff by (meson not_less)
    ultimately show ?thesis using True by (auto simp: list_all_iff list_ex_iff)
  next
    case False
    then have all: "list_all (\<lambda>d. TRACKING_KEYFRAME e < length d) trackingDataList"
      by (auto simp: list_ex_iff list_all_iff)
    have ok: "(\<exists>bs. prebuildAll ?kfs (maxCountOf ?kfs) = Inr bs)
              \<longleftrightarrow> list_all (\<lambda>d. length (data (d ! TRACKING_KEYFRAME e))
                                   = width (d ! TRACKING_KEYFRAME e)
                                     * height (d ! TRACKING_KEYFRAME e)) trackingDataList"
      by (simp add: prebuildAll_Inr_iff list_all_iff)
    show ?thesis
    proof (cases "prebuildAll ?kfs (maxCountOf ?kfs)")
      case (Inl err)
      then have err: "err = ShapeError" by (rule prebuildAll_error)
      have new: "?new = Inl ShapeError"
        using False Inl err by (simp add: Tracker_new_def Let_def)
      have "\<not> list_all (\<lambda>d. length (data (d ! TRACKING_KEYFRAME e))
                                   = width (d ! TRACKING_KEYFRAME e)
                                     * height (d ! TRACKING_KEYFRAME e)) trackingDataList"
        using ok Inl by auto
      then show ?thesis using new False all by (auto simp: list_all_iff list_ex_iff)
    next
      case (Inr bs)
      then have new: "\<exists>t. ?new = Inr t"
        using False by (simp add: Tracker_new_def Let_def)
      have "list_all (\<lambda>d. length (data (d ! TRACKING_KEYFRAME e))
                                   = width (d ! TRACKING_KEYFRAME e)
                                     * height (d ! TRACKING_KEYFRAME e)) trackingDataList"
        using ok Inr by auto
      then show ?thesis using new False all by (auto simp: list_all_iff list_ex_iff)
    qed
  qed
qed

text \<open>
  C10. The constructor does not read \<open>markerDimensions\<close>, \<open>inputWidth\<close> and
  \<open>inputHeight\<close>: two constructions that differ only in them give the same tracker (or
  the same error), hence the same result of every call of \<open>track\<close>.
\<close>

theorem track_independent_of_dimensions:
  "Tracker_new e markerDimensions1 trackingDataList P inputWidth1 inputHeight1 dbg
     = Tracker_new e markerDimensions2 trackingDataList P inputWidth2 inputHeight2 dbg
   \<and> (case Tracker_new e markerDimensions1 trackingDataList P inputWidth1 inputHeight1 dbg of
        Inl err \<Rightarrow> Inl err
      | Inr t \<Rightarrow> track e t inputImageT lastMV targetIndex)
     = (case Tracker_new e markerDimensions2 trackingDataList P inputWidth2 inputHeight2 dbg of
          Inl err \<Rightarrow> Inl err
        | Inr t \<Rightarrow> track e t inputImageT lastMV targetIndex)"
  by (simp add: Tracker_new_def)

subsection \<open>The adjusted transform\<close>

text \<open>
  C6. The transform handed to the kernels holds every entry of the composed transform
  divided by \<open>PRECISION_ADJUST = 1000\<close>; the entry the projection kernel computes from it,
  \<open>getM(i, j) * 1000.\<close>, is the composed transform's entry again, and so the pixel the
  kernel reads is the one the composed transform itself gives.
\<close>

theorem precision_adjust_round_trip:
  assumes "buildAdjustedModelViewTransform M = Inr T" and "i < 3" and "j < 4"
  shows "T ! i ! j = M ! i ! j / 1000
       \<and> kernelM e T (int i) (int j) = M ! i ! j
       \<and> projectionMain e k T pixel row col =
           (case projectionSource (\<lambda>a b. M ! nat a ! nat b) (markerScale k) row col of
              (uy, ux) \<Rightarrow> getGrid e pixel uy ux)"
proof -
  from assms(1) have T: "T = map (map (\<lambda>v. v / PRECISION_ADJUST)) M"
    and rows: "length M = 3" and cols: "\<forall>row \<in> set M. length row = 4"
    by (auto simp: buildAdjustedModelViewTransform_def Let_def list_all_iff split: if_splits)
  have entry: "kernelM e T (int a) (int b) = M ! a ! b" if "a < 3" "b < 4" for a b
    using that rows cols by (simp add: kernelM_def T getGrid_in PRECISION_ADJUST_def)
  have e00: "kernelM e T 0 0 = M ! 0 ! 0" using entry[of 0 0] by simp
  have e01: "kernelM e T 0 1 = M ! 0 ! 1" using entry[of 0 1] by simp
  have e03: "kernelM e T 0 3 = M ! 0 ! 3" using entry[of 0 3] by simp
  have e10: "kernelM e T 1 0 = M ! 1 ! 0" using entry[of 1 0] by simp
  have e11: "kernelM e T 1 1 = M ! 1 ! 1" using entry[of 1 1] by simp
  have e13: "kernelM e T 1 3 = M ! 1 ! 3" using entry[of 1 3] by simp
  have e20: "kernelM e T 2 0 = M ! 2 ! 0" using entry[of 2 0] by simp
  have e21: "kernelM e T 2 1 = M ! 2 ! 1" using entry[of 2 1] by simp
  have e23: "kernelM e T 2 3 = M ! 2 ! 3" using entry[of 2 3] by simp
  have src: "projectionSource (kernelM e T) s row col
             = projectionSource (\<lambda>a b. M ! nat a ! nat b) s row col" for s
    by (simp add: projectionSource_def e00 e01 e03 e10 e11 e13 e20 e21 e23)
  have "T ! i ! j = M ! i ! j / 1000"
    using assms(2,3) rows cols by (simp add: T PRECISION_ADJUST_def)
  then show ?thesis
    using entry[OF assms(2,3)] by (simp add: projectionMain_def src)
qed

theorem precision_adjust_round_trip_witness:
  "buildAdjustedModelViewTransform [[2000, 0, 0, 500], [0, 2000, 0, 250], [0, 0, 1, 1]]
     = Inr [[2, 0, 0, 1 / 2], [0, 2, 0, 1 / 4], [0, 0, 1 / 1000, 1 / 1000]]
   \<and> (1::nat) < 3 \<and> (3::nat) < 4
   \<and> [[2, 0, 0, 1 / 2], [0, 2, 0, 1 / 4], [0, 0, 1 / 1000, 1 / 1000]] ! 1 ! 3 = (250::real) / 1000
   \<and> kernelM exampleEnv [[2, 0, 0, 1 / 2], [0, 2, 0, 1 / 4], [0, 0, 1 / 1000, 1 / 1000]] 1 3
       = 250
   \<and> projectionMain exampleEnv \<lparr> markerHeight = 1, markerWidth = 1, markerScale = 1 \<rparr>
        [[2, 0, 0, 1 / 2], [0, 2, 0, 1 / 4], [0, 0, 1 / 1000, 1 / 1000]] [[7]] 0 0
       = (case projectionSource
                 (\<lambda>a b. [[2000, 0, 0, 500], [0, 2000, 0, 250], [0, 0, 1, 1]] ! nat a ! nat b)
                 1 0 0 of
            (uy, ux) \<Rightarrow> getGrid exampleEnv [[7]] uy ux)"
proof -
  have h: "buildAdjustedModelViewTransform [[2000, 0, 0, 500], [0, 2000, 0, 250], [0, 0, 1, 1]]
     = Inr [[2, 0, 0, 1 / 2], [0, 2, 0, 1 / 4], [0, 0, 1 / 1000, 1 / 1000]]"
    by (simp add: buildAdjustedModelViewTransform_def PRECISION_ADJUST_def)
  show ?thesis
    using precision_adjust_round_trip[OF h, of 1 3 exampleEnv
        "\<lparr> markerHeight = 1, markerWidth = 1, markerScale = 1 \<rparr>" "[[7]]" 0 0] h
    by simp
qed

subsection \<open>The selected candidate\<close>

lemma row_major_order:
  assumes "0 < (S::nat)"
  shows "a \<le> b \<longleftrightarrow> a div S < b div S \<or> (a div S = b div S \<and> a mod S \<le> b mod S)"
proof -
  have a: "a = a div S * S + a mod S" and b: "b = b div S * S + b mod S" by simp_all
  have ma: "a mod S < S" and mb: "b mod S < S" using assms by simp_all
  show ?thesis
  proof (cases "a div S < b div S")
    case True
    then have "Suc (a div S) \<le> b div S" by simp
    then have "Suc (a div S) * S \<le> b div S * S" by (rule mult_le_mono1)
    then have "a div S * S + S \<le> b div S * S" by simp
    then have "a \<le> b" using a b ma by linarith
    then show ?thesis using True by simp
  next
    case False
    show ?thesis
    proof (cases "a div S = b div S")
      case True
      then show ?thesis using a b by (metis False add_le_cancel_left)
    next
      case ne: False
      then have "b div S < a div S" using False by simp
      then have "Suc (b div S) * S \<le> a div S * S" by (intro mult_le_mono1) simp
      then have "b div S * S + S \<le> a div S * S" by simp
      then have "b < a" using a b mb by linarith
      then show ?thesis using False ne by simp
    qed
  qed
qed

text \<open>
  C7. For a feature slot \<open>f\<close>, let \<open>row\<close> be the slot's scores over the whole offset grid
  and \<open>sel\<close> the index \<open>argMax\<close> selects. The similarity and the refined location that
  \<open>_computeMatching\<close> returns for the slot are those of candidate \<open>sel\<close>; no candidate
  \<open>j\<close> of the grid scores higher; and a candidate that scores the same comes no earlier
  than \<open>sel\<close> in index order, which is the row-major order of the offsets (offset row
  \<open>j div searchSize\<close>, offset column \<open>j mod searchSize\<close>).
\<close>

theorem selection_first_maximum:
  assumes "f < featureCount (matchingKernelsFor cache fp proj)"
    and "j < searchSize e * searchSize e"
  shows "(let k = matchingKernelsFor cache fp proj;
              row = allSimsOf e k fp px props (pixels proj) ! f;
              sel = argMax row;
              mps = fst (snd (computeMatching e cache fp px props proj));
              sim = snd (snd (computeMatching e cache fp px props proj))
          in length row = searchSize e * searchSize e
           \<and> sel < searchSize e * searchSize e
           \<and> sim ! f = row ! sel
           \<and> mps ! f ! 0 = getGrid e fp (int f) 0
                 + real_of_int (searchOffsetX e (int sel) - int (searchOneSize e))
                   / getFlat e props 2
           \<and> mps ! f ! 1 = getGrid e fp (int f) 1
                 + real_of_int (searchOffsetY e (int sel) - int (searchOneSize e))
                   / getFlat e props 2
           \<and> searchOffsetX e (int sel) = int (sel mod searchSize e * searchGap e)
           \<and> searchOffsetY e (int sel) = int (sel div searchSize e * searchGap e)
           \<and> row ! j \<le> row ! sel
           \<and> (row ! j = row ! sel \<longrightarrow>
                sel \<le> j
                \<and> (sel div searchSize e < j div searchSize e
                   \<or> (sel div searchSize e = j div searchSize e
                      \<and> sel mod searchSize e \<le> j mod searchSize e))))"
proof -
  let ?k = "matchingKernelsFor cache fp proj"
  let ?row = "allSimsOf e ?k fp px props (pixels proj) ! f"
  obtain km mps sim where C: "computeMatching e cache fp px props proj = (km, mps, sim)"
    by (metis prod_cases3)
  have len: "length ?row = searchSize e * searchSize e" and ne: "?row \<noteq> []"
    using allSimsOf_row_length[OF assms(1)] by simp_all
  have sel: "argMax ?row < searchSize e * searchSize e"
    using argMax_first_maximum(1)[OF ne] len by simp
  have le: "?row ! j \<le> ?row ! argMax ?row"
    using argMax_first_maximum(2)[OF ne] assms(2) len by simp
  have first: "argMax ?row \<le> j" if "?row ! j = ?row ! argMax ?row"
    using argMax_first_maximum(3)[OF ne] that by (metis not_less order_less_irrefl)
  have rm: "sel \<le> j \<Longrightarrow> sel div searchSize e < j div searchSize e
                   \<or> (sel div searchSize e = j div searchSize e
                      \<and> sel mod searchSize e \<le> j mod searchSize e)" for sel
    using row_major_order[OF searchSize_pos, of sel j e] by simp
  note S = computeMatching_selected[OF C refl assms(1) refl]
  show ?thesis
    unfolding Let_def C fst_conv snd_conv
    using len sel le first rm S(1)
    by (simp add: S(2) searchOffsetX_of_nat searchOffsetY_of_nat del: of_nat_mult)
qed

lemma argMax_constant:
  assumes "row \<noteq> []" and "\<forall>j < length row. row ! j = c"
  shows "argMax row = 0"
proof (rule ccontr)
  assume "argMax row \<noteq> 0"
  then have "0 < argMax row" by simp
  then have "row ! 0 < row ! argMax row"
    using argMax_first_maximum(3)[OF assms(1)] by blast
  moreover have "row ! 0 = c" "row ! argMax row = c"
    using assms argMax_first_maximum(1)[OF assms(1)] by auto
  ultimately show False by simp
qed

text \<open>The scores of a slot on an image no wider than the template: all \<open>-2\<close>.\<close>

lemma allSimsOf_narrow:
  assumes w: "targetWidth k \<le> 2 * templateOneSize e" and f: "f < featureCount k"
  shows "\<forall>j < length (allSimsOf e k fp px props img ! f). allSimsOf e k fp px props img ! f ! j = -2"
    and "argMax (allSimsOf e k fp px props img ! f) = 0"
proof -
  show all: "\<forall>j < length (allSimsOf e k fp px props img ! f).
               allSimsOf e k fp px props img ! f ! j = -2"
    by (simp add: allSimsOf_row[OF f] kernel1_outside[OF outsideInterior_narrow[OF w]])
  show "argMax (allSimsOf e k fp px props img ! f) = 0"
    by (rule argMax_constant[OF allSimsOf_row_length(2)[OF f] all])
qed

theorem selection_first_maximum_witness:
  "0 < featureCount (matchingKernelsFor None [[0, 0]] \<lparr> shape = (2, 2), pixels = [[0, 0], [0, 0]] \<rparr>)
   \<and> 7 < searchSize exampleEnv * searchSize exampleEnv
   \<and> (let k = matchingKernelsFor None [[0, 0]] \<lparr> shape = (2, 2), pixels = [[0, 0], [0, 0]] \<rparr>;
          row = allSimsOf exampleEnv k [[0, 0]] [0] [2, 2, 1] [[0, 0], [0, 0]] ! 0;
          sel = argMax row;
          mps = fst (snd (computeMatching exampleEnv None [[0, 0]] [0] [2, 2, 1]
                            \<lparr> shape = (2, 2), pixels = [[0, 0], [0, 0]] \<rparr>));
          sim = snd (snd (computeMatching exampleEnv None [[0, 0]] [0] [2, 2, 1]
                            \<lparr> shape = (2, 2), pixels = [[0, 0], [0, 0]] \<rparr>))
      in length row = 441 \<and> sel = 0 \<and> sim ! 0 = row ! sel
         \<and> mps ! 0 ! 0 = -10 \<and> mps ! 0 ! 1 = -10
         \<and> row ! 7 \<le> row ! sel \<and> row ! 7 = row ! sel \<and> sel \<le> 7)"
proof -
  let ?img = "\<lparr> shape = (2, 2), pixels = [[0, 0], [0, 0::real]] \<rparr>"
  let ?k = "matchingKernelsFor None [[0, 0]] ?img"
  let ?row = "allSimsOf exampleEnv ?k [[0, 0]] [0] [2, 2, 1] [[0, 0], [0, 0]] ! 0"
  have h1: "0 < featureCount ?k" by (simp add: matchingKernelsFor_def)
  have S: "searchSize exampleEnv = 21" "searchOneSize exampleEnv = 10"
    "searchGap exampleEnv = 1"
    by (simp_all add: searchSize_def searchOneSize_def templateGap_def searchGap_def
        exampleEnv_def)
  have h2: "7 < searchSize exampleEnv * searchSize exampleEnv" by (simp add: S)
  have w: "targetWidth ?k \<le> 2 * templateOneSize exampleEnv"
    by (simp add: matchingKernelsFor_def templateOneSize_def exampleEnv_def)
  have sel: "argMax ?row = 0" by (rule allSimsOf_narrow(2)[OF w h1])
  have len: "length ?row = 441" using allSimsOf_row_length(1)[OF h1, of exampleEnv] by (simp add: S)
  have r7: "?row ! 7 = -2" "?row ! 0 = -2"
    using allSimsOf_narrow(1)[OF w h1, of "[[0, 0]]" "[0]" "[2, 2, 1]" "[[0, 0], [0, 0]]"] len by simp_all
  have g: "getGrid exampleEnv [[0, 0]] 0 0 = 0" "getGrid exampleEnv [[0, 0]] 0 1 = 0"
    "getFlat exampleEnv [2, 2, 1] 2 = 1"
    by (simp_all add: getGrid_def getFlat_def)
  show ?thesis
    using selection_first_maximum[OF h1 h2, of "[0]" "[2, 2, 1]"] h1 h2
    by (simp add: Let_def sel S r7 g searchOffsetX_of_nat searchOffsetY_of_nat)
qed

subsection \<open>The search grid\<close>

lemma candidateX_of_nat:
  "candidateX e fp props f (int j) =
     sCenter e fp props f 0 - int (searchOneSize e) + int (j mod searchSize e * searchGap e)"
  by (simp add: candidateX_def searchOffsetX_of_nat del: of_nat_mult)

lemma candidateY_of_nat:
  "candidateY e fp props f (int j) =
     sCenter e fp props f 1 - int (searchOneSize e) + int (j div searchSize e * searchGap e)"
  by (simp add: candidateY_def searchOffsetY_of_nat del: of_nat_mult)




lemma exampleEnv_sizes:
  "searchSize exampleEnv = 21" "searchOneSize exampleEnv = 10" "searchGap exampleEnv = 1"
  "templateOneSize exampleEnv = 6"
  by (simp_all add: searchSize_def searchOneSize_def templateGap_def searchGap_def
      templateOneSize_def exampleEnv_def)



subsection \<open>The refined location\<close>




subsection \<open>The correlation is between -1 and 1\<close>




text \<open>The double loop over the template window is a sum over the window's offsets.\<close>

lemma windowSum_as_sum:
  "windowSum e g =
     (\<Sum>p \<in> {..<templateSize e} \<times> {..<templateSize e}. g (int (fst p)) (int (snd p)))"
proof -
  have "windowSum e g = (\<Sum>y \<in> {..<templateSize e}. \<Sum>x \<in> {..<templateSize e}. g (int x) (int y))"
    by (simp add: windowSum_def interv_sum_list_conv_sum_set_nat atLeast0LessThan)
  also have "\<dots> = (\<Sum>x \<in> {..<templateSize e}. \<Sum>y \<in> {..<templateSize e}. g (int x) (int y))"
    by (rule sum.swap)
  also have "\<dots> = (\<Sum>p \<in> {..<templateSize e} \<times> {..<templateSize e}.
                      g (int (fst p)) (int (snd p)))"
    by (simp add: sum.cartesian_product case_prod_unfold)
  finally show ?thesis .
qed





subsection \<open>Evaluating the first kernel on the ramp target\<close>

lemma exampleEnv_template:
  "templateSize exampleEnv = 13" "AR2_SIM_THRESH exampleEnv = 0.8" "count exampleEnv = 169"
  by (simp_all add: templateOneSize_def templateSize_def count_def exampleEnv_def)

lemma windowSum_cong:
  assumes "\<And>x y. x < templateSize e \<Longrightarrow> y < templateSize e \<Longrightarrow>
             g (int x) (int y) = g' (int x) (int y)"
  shows "windowSum e g = windowSum e g'"
  unfolding windowSum_as_sum by (rule sum.cong) (auto simp: assms)

lemma upt13: "[0..<13] = [0, 1, 2, 3, 4, 5, 6, 7, 8, 9, 10, 11, 12]"
  by (simp add: upt_rec)

lemma example_sums:
  "windowSum exampleEnv (\<lambda>x y. 4 + real_of_int x) = 1690"
  "windowSum exampleEnv (\<lambda>x y. (4 + real_of_int x) * (4 + real_of_int x)) = 19266"
  "windowSum exampleEnv (\<lambda>x y. 0) = 0"
  by (simp_all add: windowSum_def exampleEnv_sizes exampleEnv_template upt13)

lemma getGrid_ramp:
  "r < h \<Longrightarrow> c < w \<Longrightarrow> getGrid e (ramp h w) (int r) (int c) = real c"
  by (simp add: getGrid_def ramp_def)

lemma ramp_sCenter:
  "sCenter exampleEnv [[10, 10]] [21, 21, 1] 0 0 = 10" "sCenter exampleEnv [[10, 10]] [21, 21, 1] 0 1 = 10"
  by (simp_all add: sCenter_def getGrid_def getFlat_def toInt_def)

lemma ramp_candidate:
  "candidateX exampleEnv [[10, 10]] [21, 21, 1] 0 220 = 10"
  "candidateY exampleEnv [[10, 10]] [21, 21, 1] 0 220 = 10"
  using candidateX_of_nat[of exampleEnv "[[10, 10]]" "[21, 21, 1]" 0 220]
    candidateY_of_nat[of exampleEnv "[[10, 10]]" "[21, 21, 1]" 0 220]
  by (simp_all add: ramp_sCenter exampleEnv_sizes exampleEnv_template)

text \<open>Around the middle of the ramp the window reads \<open>4 + x\<close> at offset \<open>(x, y)\<close>.\<close>

lemma ramp_targetPixel:
  assumes "x < templateSize exampleEnv" and "y < templateSize exampleEnv"
  shows "targetPixelAt exampleEnv (ramp 21 21) 10 10 (int x) (int y) = 4 + real_of_int (int x)"
proof -
  have "10 + int y - 6 = int (4 + y)" "10 + int x - 6 = int (4 + x)" by simp_all
  then have "targetPixelAt exampleEnv (ramp 21 21) 10 10 (int x) (int y)
             = getGrid exampleEnv (ramp 21 21) (int (4 + y)) (int (4 + x))"
    by (simp only: targetPixelAt_def Let_def exampleEnv_sizes exampleEnv_template) simp
  also have "\<dots> = real (4 + x)"
    using assms by (intro getGrid_ramp) (simp_all add: exampleEnv_sizes exampleEnv_template)
  finally show ?thesis by simp
qed

lemma ramp_markerPixel:
  assumes "x < templateSize exampleEnv" and "y < templateSize exampleEnv"
  shows "markerPixelAt exampleEnv (data rampFrame) [21, 21, 1] 10 10 (int x) (int y)
         = 4 + real_of_int (int x)"
proof -
  have w: "toInt (getFlat exampleEnv [21, 21, 1] 0) = 21"
    by (simp add: getFlat_def toInt_def)
  have idx: "(10 + int y - int 6) * 21 + (10 + int x - int 6) = int ((4 + y) * 21 + (4 + x))"
    by simp
  have lt: "(4 + y) * 21 + (4 + x) < 441" using assms by (simp add: exampleEnv_sizes exampleEnv_template)
  have md: "((4 + y) * 21 + (4 + x)) mod 21 = 4 + x"
  proof -
    have "4 + x < 21" using assms by (simp add: exampleEnv_sizes exampleEnv_template)
    then show ?thesis by (metis mod_less mod_mult_self3)
  qed
  have "markerPixelAt exampleEnv (data rampFrame) [21, 21, 1] 10 10 (int x) (int y)
        = getFlat exampleEnv (data rampFrame) (int ((4 + y) * 21 + (4 + x)))"
    by (simp only: markerPixelAt_def Let_def w exampleEnv_sizes exampleEnv_template idx)
  also have "\<dots> = real (((4 + y) * 21 + (4 + x)) mod 21)"
    using lt by (simp add: getFlat_in rampFrame_def del: of_nat_add of_nat_mult)
  finally have "markerPixelAt exampleEnv (data rampFrame) [21, 21, 1] 10 10 (int x) (int y)
                = real (4 + x)"
    unfolding md .
  then show ?thesis by simp
qed

lemma ramp_variances:
  "pointVariance exampleEnv (targetPixelAt exampleEnv (ramp 21 21) 10 10) = sqrt 2366"
  "templateVariance exampleEnv (markerPixelAt exampleEnv (data rampFrame) [21, 21, 1] 10 10) = sqrt 2366"
  "sumPointTemplate exampleEnv (targetPixelAt exampleEnv (ramp 21 21) 10 10)
      (markerPixelAt exampleEnv (data rampFrame) [21, 21, 1] 10 10)
    - sumPoint exampleEnv (targetPixelAt exampleEnv (ramp 21 21) 10 10) / count exampleEnv
      * sumTemplate exampleEnv (markerPixelAt exampleEnv (data rampFrame) [21, 21, 1] 10 10) = 2366"
proof -
  let ?p = "targetPixelAt exampleEnv (ramp 21 21) 10 10"
  let ?m = "markerPixelAt exampleEnv (data rampFrame) [21, 21, 1] 10 10"
  have p1: "windowSum exampleEnv ?p = 1690"
    using windowSum_cong[of exampleEnv ?p "\<lambda>x y. 4 + real_of_int x"] ramp_targetPixel
    by (simp add: example_sums)
  have p2: "windowSum exampleEnv (\<lambda>x y. ?p x y * ?p x y) = 19266"
    using windowSum_cong[of exampleEnv "\<lambda>x y. ?p x y * ?p x y"
        "\<lambda>x y. (4 + real_of_int x) * (4 + real_of_int x)"] ramp_targetPixel
    by (simp add: example_sums)
  have m1: "windowSum exampleEnv ?m = 1690"
    using windowSum_cong[of exampleEnv ?m "\<lambda>x y. 4 + real_of_int x"] ramp_markerPixel
    by (simp add: example_sums)
  have m2: "windowSum exampleEnv (\<lambda>x y. ?m x y * ?m x y) = 19266"
    using windowSum_cong[of exampleEnv "\<lambda>x y. ?m x y * ?m x y"
        "\<lambda>x y. (4 + real_of_int x) * (4 + real_of_int x)"] ramp_markerPixel
    by (simp add: example_sums)
  have pm: "windowSum exampleEnv (\<lambda>x y. ?p x y * ?m x y) = 19266"
    using windowSum_cong[of exampleEnv "\<lambda>x y. ?p x y * ?m x y"
        "\<lambda>x y. (4 + real_of_int x) * (4 + real_of_int x)"] ramp_targetPixel ramp_markerPixel
    by (simp add: example_sums)
  show "pointVariance exampleEnv ?p = sqrt 2366"
    by (simp add: pointVariance_def sumPoint_def sumPointSquare_def p1 p2 exampleEnv_sizes exampleEnv_template)
  show "templateVariance exampleEnv ?m = sqrt 2366"
    by (simp add: templateVariance_def sumTemplate_def sumTemplateSquare_def m1 m2
        exampleEnv_sizes exampleEnv_template)
  show "sumPointTemplate exampleEnv ?p ?m - sumPoint exampleEnv ?p / count exampleEnv
          * sumTemplate exampleEnv ?m = 2366"
    by (simp add: sumPointTemplate_def sumPoint_def sumTemplate_def p1 m1 pm exampleEnv_sizes exampleEnv_template)
qed

lemma sqrt2366_not_small: "\<not> sqrt 2366 < epsilon"
proof -
  have "1 \<le> sqrt 2366" by simp
  moreover have "epsilon < 1" by (simp add: epsilon_def)
  ultimately show ?thesis by linarith
qed

text \<open>The middle candidate of the ramp target matches its template exactly.\<close>

lemma ramp_kernel1_middle:
  assumes "targetWidth k = 21" and "targetHeight k = 21"
  shows "kernel1 exampleEnv k [[10, 10]] (data rampFrame) [21, 21, 1] (ramp 21 21) 0 220 = 1"
proof -
  have inside: "\<not> outsideInterior exampleEnv k 10 10"
    by (simp add: outsideInterior_def assms exampleEnv_sizes exampleEnv_template)
  have "ncc exampleEnv (targetPixelAt exampleEnv (ramp 21 21) 10 10)
          (markerPixelAt exampleEnv (data rampFrame) [21, 21, 1] 10 10) = 2366 / sqrt 2366 / sqrt 2366"
    by (simp only: ncc_def ramp_variances)
  also have "\<dots> = 1" by simp
  finally show ?thesis
    using inside sqrt2366_not_small
    by (simp add: kernel1_def Let_def ramp_candidate ramp_sCenter ramp_variances)
qed




subsection \<open>The scores of the first kernel\<close>




subsection \<open>One cached matching kernel for targets of different sizes\<close>

lemma twoTargets_new:
  "Tracker_new exampleEnv [] [[flatFrame, flatFrame], [rampFrame, rampFrame]] [] 0 0 False
   = Inr twoTargets"
  by (simp add: Tracker_new_def exampleEnv_def flatFrame_def rampFrame_def
      twoTargets_def maxCountOf_def prebuild_def)

lemma twoTargets_consistent: "consistent twoTargets"
  by (rule Tracker_new_consistent[OF twoTargets_new])

lemma trackStages_cache:
  assumes "trackStages e t inputImageT lastMV targetIndex = Inr (kc, mvp, img, mps, sim)"
  shows "computeMatchingCache kc
         = Some (matchingKernelsFor (computeMatchingCache (caches t))
                   (featurePointsListT t ! targetIndex) img)"
  using assms
  by (auto simp: trackStages_def computeProjection_def computeMatching_def Let_def
      split: sum.splits if_splits prod.splits)

lemma track_consistent:
  assumes c: "consistent t" and i: "targetIndex < length (trackingKeyframeList t)"
    and S: "trackStages e t inputImageT lastMV targetIndex = Inr (kc, mvp, img, mps, sim)"
  shows "consistent (t\<lparr> caches := kc \<rparr>)"
  using c consistent_featureCount[OF c i, of img] trackStages_cache[OF S]
  by (simp add: consistent_def)

text \<open>Every call of \<open>track\<close> that returns leaves a consistent tracker consistent.\<close>

lemma track_preserves_consistent:
  assumes c: "consistent t"
    and T: "track e t inputImageT lastMV targetIndex = Inr (t', out)"
  shows "consistent t'"
proof -
  from T obtain kc mvp img mps sim where
    S: "trackStages e t inputImageT lastMV targetIndex = Inr (kc, mvp, img, mps, sim)"
    and t': "t' = t\<lparr> caches := kc \<rparr>"
    by (auto simp: track_def split: sum.splits prod.splits)
  have i: "targetIndex < length (trackingKeyframeList t)"
    using S by (auto simp: trackStages_def Let_def split: sum.splits if_splits)
  show ?thesis unfolding t' by (rule track_consistent[OF c i S])
qed

text \<open>The composed transform of the instances maps every pixel to itself.\<close>

lemma example_adjusted:
  "map (map (\<lambda>v. v / PRECISION_ADJUST)) (buildModelViewProjectionTransform exampleEnv P lastMV)
   = [[1 / 1000, 0, 0, 0], [0, 1 / 1000, 0, 0], [0, 0, 0, 1 / 1000]]"
  by (simp add: exampleEnv_def PRECISION_ADJUST_def)

lemma example_projection:
  assumes "markerScale k = 1"
  shows "projectionMain exampleEnv k
           [[1 / 1000, 0, 0, 0], [0, 1 / 1000, 0, 0], [0, 0, 0, 1 / 1000]]
           frame (int r) (int c)
         = getGrid exampleEnv frame (int r) (int c)"
proof -
  let ?T = "[[1 / 1000, 0, 0, 0], [0, 1 / 1000, 0, 0], [0, 0, 0, 1 / 1000::real]]"
  have m: "kernelM exampleEnv ?T 0 0 = 1" "kernelM exampleEnv ?T 0 1 = 0" "kernelM exampleEnv ?T 0 3 = 0"
    "kernelM exampleEnv ?T 1 0 = 0" "kernelM exampleEnv ?T 1 1 = 1" "kernelM exampleEnv ?T 1 3 = 0"
    "kernelM exampleEnv ?T 2 0 = 0" "kernelM exampleEnv ?T 2 1 = 0" "kernelM exampleEnv ?T 2 3 = 1"
    by (simp_all add: kernelM_def getGrid_def PRECISION_ADJUST_def)
  have half: "\<lfloor>real n + 1 / 2\<rfloor> = int n" for n by linarith
  have "projectionSource (kernelM exampleEnv ?T) 1 (int r) (int c) = (int r, int c)"
    by (simp add: projectionSource_def m half toInt_of_int)
  then show ?thesis by (simp add: projectionMain_def assms)
qed

lemma example_rectified:
  assumes "h \<le> 21" and "w \<le> 21"
  shows "runProjection exampleEnv \<lparr> markerHeight = h, markerWidth = w, markerScale = 1 \<rparr>
           [[1 / 1000, 0, 0, 0], [0, 1 / 1000, 0, 0], [0, 0, 0, 1 / 1000]] (ramp 21 21)
         = \<lparr> shape = (h, w), pixels = ramp h w \<rparr>"
proof -
  have "map (\<lambda>row. map (\<lambda>col. projectionMain exampleEnv
               \<lparr> markerHeight = h, markerWidth = w, markerScale = 1 \<rparr>
               [[1 / 1000, 0, 0, 0], [0, 1 / 1000, 0, 0], [0, 0, 0, 1 / 1000]]
               (ramp 21 21) (int row) (int col)) [0..<w]) [0..<h]
        = map (\<lambda>row. map (\<lambda>col. real col) [0..<w]) [0..<h]"
    using assms by (intro map_cong refl) (simp add: example_projection getGrid_ramp)
  then show ?thesis by (simp add: runProjection_def ramp_def)
qed


lemma twoTargets_fields:
  "trackingKeyframeList twoTargets ! 0 = flatFrame"
  "trackingKeyframeList twoTargets ! 1 = rampFrame"
  "featurePointsListT twoTargets ! 0 = [[-1, -1]]"
  "featurePointsListT twoTargets ! 1 = [[10, 10]]"
  "imagePixelsListT twoTargets ! 1 = data rampFrame"
  "imagePropertiesListT twoTargets ! 1 = [21, 21, 1]"
  "length (trackingKeyframeList twoTargets) = 2"
  "caches twoTargets = \<lparr> computeMatchingCache = None, computeProjectionCache = None \<rparr>"
  "maxCountOf (trackingKeyframeList twoTargets) = 1"
  "trackingKeyframeList twoTargets ! Suc 0 = rampFrame"
  "featurePointsListT twoTargets ! Suc 0 = [[10, 10]]"
  "imagePixelsListT twoTargets ! Suc 0 = data rampFrame"
  "imagePropertiesListT twoTargets ! Suc 0 = [21, 21, 1]"
  by (simp_all add: twoTargets_def maxCountOf_def flatFrame_def rampFrame_def)

lemma example_transform_shape:
  "length (buildModelViewProjectionTransform exampleEnv P lastMV) = 3"
  "list_all (\<lambda>row. length row = 4) (buildModelViewProjectionTransform exampleEnv P lastMV)"
  by (simp_all add: exampleEnv_def)

text \<open>The rectified image of either target, whatever the projection cache holds.\<close>

lemma example_computeProjection:
  assumes "computeProjectionCache kc = None
           \<or> (\<exists>m. computeProjectionCache kc = Some m
                  \<and> (m (21, 21, 1) = None
                     \<or> m (21, 21, 1) = Some \<lparr> markerHeight = 21, markerWidth = 21, markerScale = 1 \<rparr>))"
  shows "snd (computeProjection exampleEnv kc rampFrame
                [[1 / 1000, 0, 0, 0], [0, 1 / 1000, 0, 0], [0, 0, 0, 1 / 1000]] (ramp 21 21))
         = \<lparr> shape = (21, 21), pixels = ramp 21 21 \<rparr>"
  using assms example_rectified[of 21 21]
  by (auto simp: computeProjection_def rampFrame_def Let_def)

lemma example_computeProjection_flat:
  "computeProjection exampleEnv \<lparr> computeMatchingCache = None, computeProjectionCache = None \<rparr>
     flatFrame [[1 / 1000, 0, 0, 0], [0, 1 / 1000, 0, 0], [0, 0, 0, 1 / 1000]] (ramp 21 21)
   = (\<lparr> computeMatchingCache = None,
        computeProjectionCache =
          Some [(4, 4, 1) \<mapsto> \<lparr> markerHeight = 4, markerWidth = 4, markerScale = 1 \<rparr>] \<rparr>,
      \<lparr> shape = (4, 4), pixels = ramp 4 4 \<rparr>)"
  using example_rectified[of 4 4]
  by (simp add: computeProjection_def flatFrame_def Let_def)

text \<open>
  C1 fails on the code. The tracker holds a flat 4 by 4 target (index 0) and the 21 by 21
  ramp target (index 1); the camera frame shows the ramp, and the composed transform maps
  every pixel to itself. Tracking target 1 on the new tracker builds the matching kernels
  for a 21 by 21 image and returns the correspondence of its feature point. Tracking target 0
  first builds them for a 4 by 4 image; the same call for target 1 then runs those, every
  candidate is outside a 4 by 4 image's interior, and no correspondence is returned.
\<close>

theorem stale_matching_kernel:
  "\<exists>fresh outFresh t1 out0 t2 outStale.
       Tracker_new exampleEnv [] [[flatFrame, flatFrame], [rampFrame, rampFrame]] [] 0 0 False
         = Inr twoTargets
     \<and> track exampleEnv twoTargets (ramp 21 21) [] 1 = Inr (fresh, outFresh)
     \<and> computeMatchingCache (caches fresh)
         = Some \<lparr> featureCount = 1, targetHeight = 21, targetWidth = 21 \<rparr>
     \<and> worldCoords outFresh = [(10, 10, 0)]
     \<and> track exampleEnv twoTargets (ramp 21 21) [] 0 = Inr (t1, out0)
     \<and> computeMatchingCache (caches t1)
         = Some \<lparr> featureCount = 1, targetHeight = 4, targetWidth = 4 \<rparr>
     \<and> track exampleEnv t1 (ramp 21 21) [] 1 = Inr (t2, outStale)
     \<and> computeMatchingCache (caches t2)
         = Some \<lparr> featureCount = 1, targetHeight = 4, targetWidth = 4 \<rparr>
     \<and> worldCoords outStale = []"
proof -
  note c = twoTargets_consistent
  note M = example_transform_shape[of "projectionTransform twoTargets" "[]"]
  have i0: "0 < length (trackingKeyframeList twoTargets)"
    and i1: "1 < length (trackingKeyframeList twoTargets)"
    by (simp_all add: twoTargets_fields)
  txt \<open>Target 1 on the new tracker.\<close>
  from trackStages_Inr[OF c i1 M, of "ramp 21 21"] obtain kcF imgF mpsF simF kmF where
    SF: "trackStages exampleEnv twoTargets (ramp 21 21) [] 1
           = Inr (kcF, buildModelViewProjectionTransform exampleEnv
                         (projectionTransform twoTargets) [], imgF, mpsF, simF)"
    and lenF: "length mpsF = maxCountOf (trackingKeyframeList twoTargets)"
    and imgF: "imgF = snd (computeProjection exampleEnv (caches twoTargets)
                             (trackingKeyframeList twoTargets ! 1)
                             (map (map (\<lambda>v. v / PRECISION_ADJUST))
                                (buildModelViewProjectionTransform exampleEnv
                                   (projectionTransform twoTargets) []))
                             (ramp 21 21))"
    and CF: "computeMatching exampleEnv (computeMatchingCache (caches twoTargets))
               (featurePointsListT twoTargets ! 1) (imagePixelsListT twoTargets ! 1)
               (imagePropertiesListT twoTargets ! 1) imgF = (kmF, mpsF, simF)"
    by blast
  have imgF': "imgF = \<lparr> shape = (21, 21), pixels = ramp 21 21 \<rparr>"
    unfolding imgF example_adjusted twoTargets_fields
    by (rule example_computeProjection) simp
  let ?kF = "matchingKernelsFor None [[10, 10]] imgF"
  have kF: "?kF = \<lparr> featureCount = 1, targetHeight = 21, targetWidth = 21 \<rparr>"
    by (simp add: matchingKernelsFor_def imgF')
  have CF': "computeMatching exampleEnv None [[10, 10]] (data rampFrame) [21, 21, 1] imgF
               = (kmF, mpsF, simF)"
    using CF by (simp add: twoTargets_fields)
  have fF: "0 < featureCount ?kF" by (simp add: kF)
  let ?row = "allSimsOf exampleEnv ?kF [[10, 10]] (data rampFrame) [21, 21, 1] (pixels imgF) ! 0"
  have rlen: "length ?row = 441" "?row \<noteq> []"
    using allSimsOf_row_length[OF fF, of exampleEnv] by (simp_all add: exampleEnv_sizes exampleEnv_template)
  have "?row ! 220 = kernel1 exampleEnv ?kF [[10, 10]] (data rampFrame) [21, 21, 1] (pixels imgF) 0 220"
    by (simp add: allSimsOf_row[OF fF] exampleEnv_sizes exampleEnv_template)
  also have "\<dots> = 1"
    unfolding imgF' by (simp add: ramp_kernel1_middle matchingKernelsFor_def)
  finally have r12: "?row ! 220 = 1" .
  have "?row ! 220 \<le> ?row ! argMax ?row"
    using argMax_first_maximum(2)[OF rlen(2)] rlen(1) by simp
  moreover have "simF ! 0 = ?row ! argMax ?row"
    by (rule computeMatching_selected(1)[OF CF' refl fF refl])
  ultimately have simF: "1 \<le> simF ! 0" using r12 by simp
  have nF: "length (points (trackingKeyframeList twoTargets ! 1)) \<le> length mpsF"
    by (simp add: lenF twoTargets_fields rampFrame_def)
  have goodF: "filter (\<lambda>i. simF ! i > AR2_SIM_THRESH exampleEnv)
                 [0..<length (points (trackingKeyframeList twoTargets ! 1))] = [0]"
    using simF by (simp add: twoTargets_fields rampFrame_def exampleEnv_sizes exampleEnv_template)
  have fresh: "track exampleEnv twoTargets (ramp 21 21) [] 1
                 = Inr (twoTargets\<lparr> caches := kcF \<rparr>,
                        \<lparr> worldCoords = [(10, 10, 0)],
                          screenCoords = [computeScreenCoordiate exampleEnv
                             (buildModelViewProjectionTransform exampleEnv
                                (projectionTransform twoTargets) [])
                             (mpsF ! 0 ! 0) (mpsF ! 0 ! 1)],
                          debugExtra = None \<rparr>)"
    unfolding track_of_stages[OF SF nF] goodF
    by (simp add: twoTargets_fields rampFrame_def twoTargets_def)
  have cacheF: "computeMatchingCache kcF
                  = Some \<lparr> featureCount = 1, targetHeight = 21, targetWidth = 21 \<rparr>"
    using trackStages_cache[OF SF] kF by (simp add: twoTargets_fields)
  txt \<open>Target 0 first.\<close>
  from trackStages_Inr[OF c i0 M, of "ramp 21 21"] obtain kc0 img0 mps0 sim0 where
    S0: "trackStages exampleEnv twoTargets (ramp 21 21) [] 0
           = Inr (kc0, buildModelViewProjectionTransform exampleEnv
                         (projectionTransform twoTargets) [], img0, mps0, sim0)"
    and img0: "img0 = snd (computeProjection exampleEnv (caches twoTargets)
                             (trackingKeyframeList twoTargets ! 0)
                             (map (map (\<lambda>v. v / PRECISION_ADJUST))
                                (buildModelViewProjectionTransform exampleEnv
                                   (projectionTransform twoTargets) []))
                             (ramp 21 21))"
    by blast
  have img0': "img0 = \<lparr> shape = (4, 4), pixels = ramp 4 4 \<rparr>"
    unfolding img0 example_adjusted twoTargets_fields example_computeProjection_flat by simp
  have n0: "length (points (trackingKeyframeList twoTargets ! 0)) \<le> length mps0"
    by (simp add: twoTargets_fields flatFrame_def)
  let ?t1 = "twoTargets\<lparr> caches := kc0 \<rparr>"
  obtain out0 where first: "track exampleEnv twoTargets (ramp 21 21) [] 0 = Inr (?t1, out0)"
    using track_of_stages[OF S0 n0] by blast
  have c1: "consistent ?t1" by (rule track_consistent[OF c i0 S0])
  have cache0: "computeMatchingCache kc0
                  = Some \<lparr> featureCount = 1, targetHeight = 4, targetWidth = 4 \<rparr>"
    using trackStages_cache[OF S0]
    by (simp add: twoTargets_fields matchingKernelsFor_def img0')
  txt \<open>Then target 1, on the kernels stored by the first call.\<close>
  have i1': "1 < length (trackingKeyframeList ?t1)" by (simp add: twoTargets_fields)
  have M': "length (buildModelViewProjectionTransform exampleEnv (projectionTransform ?t1) []) = 3"
    "list_all (\<lambda>row. length row = 4)
       (buildModelViewProjectionTransform exampleEnv (projectionTransform ?t1) [])"
    by (rule example_transform_shape)+
  from trackStages_Inr[OF c1 i1' M', of "ramp 21 21"] obtain kcS imgS mpsS simS kmS where
    SS: "trackStages exampleEnv ?t1 (ramp 21 21) [] 1
           = Inr (kcS, buildModelViewProjectionTransform exampleEnv
                         (projectionTransform ?t1) [], imgS, mpsS, simS)"
    and lenS: "length mpsS = maxCountOf (trackingKeyframeList ?t1)"
    and CS: "computeMatching exampleEnv (computeMatchingCache (caches ?t1))
               (featurePointsListT ?t1 ! 1) (imagePixelsListT ?t1 ! 1)
               (imagePropertiesListT ?t1 ! 1) imgS = (kmS, mpsS, simS)"
    by blast
  let ?kS = "matchingKernelsFor (computeMatchingCache (caches ?t1))
               (featurePointsListT ?t1 ! 1) imgS"
  have kS: "?kS = \<lparr> featureCount = 1, targetHeight = 4, targetWidth = 4 \<rparr>"
    by (simp add: matchingKernelsFor_def cache0)
  have wS: "targetWidth ?kS \<le> 2 * templateOneSize exampleEnv"
    unfolding kS by (simp add: exampleEnv_sizes exampleEnv_template)
  have fS: "0 < featureCount ?kS"
    unfolding kS by simp
  have "simS ! 0 = - 2"
    by (rule computeMatching_narrow[OF CS wS fS])
  then have goodS: "filter (\<lambda>i. simS ! i > AR2_SIM_THRESH exampleEnv)
                      [0..<length (points (trackingKeyframeList ?t1 ! 1))] = []"
    by (simp add: twoTargets_fields rampFrame_def exampleEnv_sizes exampleEnv_template)
  have nS: "length (points (trackingKeyframeList ?t1 ! 1)) \<le> length mpsS"
    by (simp add: lenS twoTargets_fields rampFrame_def)
  have stale: "track exampleEnv ?t1 (ramp 21 21) [] 1
                 = Inr (?t1\<lparr> caches := kcS \<rparr>,
                        \<lparr> worldCoords = [], screenCoords = [], debugExtra = None \<rparr>)"
    unfolding track_of_stages[OF SS nS] goodS
    by (simp add: twoTargets_def)
  have cacheS: "computeMatchingCache kcS
                  = Some \<lparr> featureCount = 1, targetHeight = 4, targetWidth = 4 \<rparr>"
    using trackStages_cache[OF SS] kS by simp
  show ?thesis
    using twoTargets_new fresh cacheF first cache0 stale cacheS by simp
qed

end
